theory Spec2Isabelle
  imports Main "HOL-Library.Word"
begin

unbundle bit_operations_syntax

section \<open>Buffer descriptors: \<open>xla::cpu_function_runtime::BufferInfo\<close>\<close>

text \<open>
  \<^verbatim>\<open>enum class Kind : uint64_t { kConstant, kTempBuffer, kEntryParameter, kOnStackBuffer }\<close>.
  A scoped enumeration with a fixed underlying type holds every value of that type, and
  the code moves between \<open>Kind\<close> and \<open>uint64_t\<close> with \<open>static_cast\<close> in both directions,
  so \<open>Kind\<close> is its underlying type with four named enumerators.
\<close>

type_synonym Kind = "64 word"

definition kConstant :: Kind where "kConstant = 0"
definition kTempBuffer :: Kind where "kTempBuffer = 1"
definition kEntryParameter :: Kind where "kEntryParameter = 2"
definition kOnStackBuffer :: Kind where "kOnStackBuffer = 3"

text \<open>
  The three data members: \<^verbatim>\<open>Kind kind_ : 2; uint64_t size_ : 62; int64_t entry_param_number_;\<close>.
  The two bit-fields keep the low 2 and the low 62 bits of what is stored into them;
  \<open>entry_param_number_\<close> is a signed 64-bit integer, kept as its two's complement bit
  pattern (\<open>sint\<close> reads its value). The fields carry the suffix \<open>f\<close>: a name cannot
  end with an underscore here.
\<close>

record BufferInfo =
  kind_f :: "2 word"
  size_f :: "62 word"
  entry_param_number_f :: "64 word"

text \<open>The private constructor \<^verbatim>\<open>BufferInfo(Kind kind, uint64_t size, uint64_t entry_param_number)\<close>.\<close>

definition BufferInfo_init :: "Kind \<Rightarrow> 64 word \<Rightarrow> 64 word \<Rightarrow> BufferInfo" where
  "BufferInfo_init knd sz entry_param_number =
     \<lparr>kind_f = ucast knd, size_f = ucast sz, entry_param_number_f = entry_param_number\<rparr>"

text \<open>\<^verbatim>\<open>Kind kind() const { return static_cast<Kind>(kind_); }\<close>\<close>

definition kind :: "BufferInfo \<Rightarrow> Kind" where
  "kind b = ucast (kind_f b)"

text \<open>\<^verbatim>\<open>uint64_t size() const { return size_; }\<close> (named \<open>size_of\<close>: \<open>size\<close> is a HOL constant).\<close>

definition size_of :: "BufferInfo \<Rightarrow> 64 word" where
  "size_of b = ucast (size_f b)"

definition is_constant :: "BufferInfo \<Rightarrow> bool" where
  "is_constant b = (kind b = kConstant)"

definition is_entry_parameter :: "BufferInfo \<Rightarrow> bool" where
  "is_entry_parameter b = (kind b = kEntryParameter)"

definition is_temp_buffer :: "BufferInfo \<Rightarrow> bool" where
  "is_temp_buffer b = (kind b = kTempBuffer)"

definition is_on_stack_buffer :: "BufferInfo \<Rightarrow> bool" where
  "is_on_stack_buffer b = (kind b = kOnStackBuffer)"

text \<open>
  \<^verbatim>\<open>uint64_t entry_parameter_number() const { assert(is_entry_parameter()); return entry_param_number_; }\<close>
  The failed assertion is the value \<open>None\<close>.
\<close>

definition entry_parameter_number :: "BufferInfo \<Rightarrow> 64 word option" where
  "entry_parameter_number b =
     (if is_entry_parameter b then Some (entry_param_number_f b) else None)"

text \<open>\<^verbatim>\<open>return (static_cast<uint64_t>(size) << 2) | static_cast<uint64_t>(kind);\<close>\<close>

definition Pack :: "Kind \<Rightarrow> 64 word \<Rightarrow> 64 word" where
  "Pack knd sz = (push_bit 2 sz) OR knd"

text \<open>
  \<^verbatim>\<open>*size = packed >> 2; *kind = static_cast<Kind>((packed << 62) >> 62);\<close>
  The two out-parameters are returned as the pair \<open>(kind, size)\<close>.
\<close>

definition Unpack :: "64 word \<Rightarrow> Kind \<times> 64 word" where
  "Unpack packed = (drop_bit 62 (push_bit 62 packed), drop_bit 2 packed)"

text \<open>
  The decoding constructor \<^verbatim>\<open>explicit BufferInfo(std::pair<uint64_t, uint64_t> encoding)\<close>:
  \<open>entry_param_number_\<close> is initialised from the second word, \<open>kind_\<close> and \<open>size_\<close> are
  assigned from what \<open>Unpack\<close> gives for the first.
\<close>

definition BufferInfo_of_encoding :: "64 word \<times> 64 word \<Rightarrow> BufferInfo" where
  "BufferInfo_of_encoding encoding =
     (case Unpack (fst encoding) of
        (knd, sz) \<Rightarrow>
          \<lparr>kind_f = ucast knd, size_f = ucast sz, entry_param_number_f = snd encoding\<rparr>)"

text \<open>\<^verbatim>\<open>uint64_t upper = Pack(kind(), size_); uint64_t lower = entry_param_number_; return {upper, lower};\<close>\<close>

definition Encode :: "BufferInfo \<Rightarrow> 64 word \<times> 64 word" where
  "Encode b = (Pack (kind b) (ucast (size_f b)), entry_param_number_f b)"

text \<open>
  \<open>operator==\<close>. It calls \<open>entry_parameter_number\<close> on both sides, whose assertion can
  fail, so the result is optional.
\<close>

definition operator_eq :: "BufferInfo \<Rightarrow> BufferInfo \<Rightarrow> bool option" where
  "operator_eq a b =
     (if kind a \<noteq> kind b \<or> size_of a \<noteq> size_of b then Some False
      else if \<not> is_entry_parameter a then Some True
      else (case entry_parameter_number a of
              None \<Rightarrow> None
            | Some p \<Rightarrow> (case entry_parameter_number b of
                          None \<Rightarrow> None
                        | Some q \<Rightarrow> Some (p = q))))"

text \<open>The factory methods; \<open>-1\<close> is converted to \<open>uint64_t\<close>, all bits set.\<close>

definition MakeTempBuffer :: "64 word \<Rightarrow> BufferInfo" where
  "MakeTempBuffer sz = BufferInfo_init kTempBuffer sz (- 1)"

definition MakeConstant :: "64 word \<Rightarrow> BufferInfo" where
  "MakeConstant sz = BufferInfo_init kConstant sz (- 1)"

definition MakeEntryParameter :: "64 word \<Rightarrow> 64 word \<Rightarrow> BufferInfo" where
  "MakeEntryParameter sz param_number = BufferInfo_init kEntryParameter sz param_number"

definition MakeOnStackBuffer :: "64 word \<Rightarrow> BufferInfo" where
  "MakeOnStackBuffer sz = BufferInfo_init kOnStackBuffer sz (- 1)"


section \<open>Kernel launch: \<open>xla::cpu::Kernel\<close>\<close>

subsection \<open>The native call convention\<close>

text \<open>
  Modelled from the spec: the declarations of \<open>kernel_c_api.h\<close> and \<open>kernel.h\<close>
  (\<open>Kernel::ThreadDim\<close>, \<open>XLA_CPU_KernelThreadDim\<close>, \<open>XLA_CPU_KernelThread\<close>,
  \<open>XLA_CPU_KernelArg\<close>, \<open>XLA_CPU_KernelCallFrame\<close>, \<open>XLA_CPU_Kernel\<close>) are not among the
  sources. The spec gives a grid shape and a coordinate as triples \<open>(x, y, z)\<close>, an
  argument as a (pointer, size) pair and a call frame as the grid dimensions, the current
  coordinate, the argument count and the argument array; the launch code reads and writes their
  members as \<open>uint64_t\<close> and \<open>size_t\<close>. The members are prefixed, since \<open>x\<close>, \<open>y\<close>, \<open>z\<close>
  and \<open>args\<close> name variables below.
\<close>

record ThreadDim =
  td_x :: "64 word"
  td_y :: "64 word"
  td_z :: "64 word"

record XLA_CPU_KernelThreadDim =
  ktd_x :: "64 word"
  ktd_y :: "64 word"
  ktd_z :: "64 word"

record XLA_CPU_KernelThread =
  kt_x :: "64 word"
  kt_y :: "64 word"
  kt_z :: "64 word"

record XLA_CPU_KernelArg =
  arg_data :: "64 word"
  arg_size :: "64 word"

text \<open>
  The frame holds pointers to the dimensions, to the coordinate and to the arguments; the
  model holds what they point to when the kernel is called.
\<close>

record XLA_CPU_KernelCallFrame =
  cf_thread_dims :: XLA_CPU_KernelThreadDim
  cf_thread :: XLA_CPU_KernelThread
  cf_num_args :: "64 word"
  cf_args :: "XLA_CPU_KernelArg list"

text \<open>
  The native kernel is compiled code: it reads and writes the memory its arguments point
  to, and returns a pointer to an opaque error, null on success. It is a function of the
  frame and of a state \<open>'s\<close> (the memory, or whatever else it touches), and its error is
  an optional \<open>'e\<close>, \<open>None\<close> for the null pointer.
\<close>

type_synonym ('e, 's) XLA_CPU_Kernel =
  "XLA_CPU_KernelCallFrame \<Rightarrow> 's \<Rightarrow> 'e option \<times> 's"

text \<open>\<open>absl::Status\<close>, as far as the launch code builds it: OK, or an internal error with a message.\<close>

datatype Status = OkStatus | InternalError string

definition ok :: "Status \<Rightarrow> bool" where
  "ok st = (st = OkStatus)"

subsection \<open>The synchronous launch\<close>

text \<open>
  The three nested loops of \<^verbatim>\<open>Kernel::Launch(thread_dims, args)\<close>, innermost first. Each
  takes its counter as an argument and returns \<open>Some status\<close> when the body executed
  \<^verbatim>\<open>return absl::InternalError("Failed to call host kernel")\<close>, and \<open>None\<close> when the loop
  ran to its end.
\<close>

function Launch_loop_x ::
  "('e, 's) XLA_CPU_Kernel \<Rightarrow> ThreadDim \<Rightarrow> XLA_CPU_KernelThreadDim \<Rightarrow> XLA_CPU_KernelArg list \<Rightarrow>
   64 word \<Rightarrow> 64 word \<Rightarrow> 64 word \<Rightarrow> 's \<Rightarrow> Status option \<times> 's" where
  "Launch_loop_x kern thread_dims kernel_thread_dims args z y x s =
     (if x < td_x thread_dims then
        (let kernel_thread = \<lparr>kt_x = x, kt_y = y, kt_z = z\<rparr>;
             call_frame = \<lparr>cf_thread_dims = kernel_thread_dims, cf_thread = kernel_thread,
                           cf_num_args = of_nat (length args), cf_args = args\<rparr>
         in case kern call_frame s of
              (Some error, s') \<Rightarrow> (Some (InternalError ''Failed to call host kernel''), s')
            | (None, s') \<Rightarrow> Launch_loop_x kern thread_dims kernel_thread_dims args z y (x + 1) s')
      else (None, s))"
  by pat_completeness auto
termination
proof (relation "measure (\<lambda>(kern, thread_dims, kernel_thread_dims, args, z, y, x, s).
                   unat (td_x thread_dims) - unat x)")
  fix kern :: "('e, 's) XLA_CPU_Kernel" and thread_dims :: ThreadDim
    and kernel_thread_dims :: XLA_CPU_KernelThreadDim and args :: "XLA_CPU_KernelArg list"
    and z y x :: "64 word" and s s' :: 's
  assume "x < td_x thread_dims"
  then have lt: "unat x < unat (td_x thread_dims)"
    by (simp add: word_less_nat_alt)
  moreover have "unat (td_x thread_dims) < 2 ^ 64"
    using unsigned_less [of "td_x thread_dims"] by simp
  ultimately have "unat (x + 1) = Suc (unat x)"
    by (simp add: unat_word_ariths)
  with lt show "((kern, thread_dims, kernel_thread_dims, args, z, y, x + 1, s'),
                 (kern, thread_dims, kernel_thread_dims, args, z, y, x, s))
                \<in> measure (\<lambda>(kern, thread_dims, kernel_thread_dims, args, z, y, x, s).
                     unat (td_x thread_dims) - unat x)"
    by simp
qed simp

declare Launch_loop_x.simps [simp del]

function Launch_loop_y ::
  "('e, 's) XLA_CPU_Kernel \<Rightarrow> ThreadDim \<Rightarrow> XLA_CPU_KernelThreadDim \<Rightarrow> XLA_CPU_KernelArg list \<Rightarrow>
   64 word \<Rightarrow> 64 word \<Rightarrow> 's \<Rightarrow> Status option \<times> 's" where
  "Launch_loop_y kern thread_dims kernel_thread_dims args z y s =
     (if y < td_y thread_dims then
        (case Launch_loop_x kern thread_dims kernel_thread_dims args z y 0 s of
           (Some st, s') \<Rightarrow> (Some st, s')
         | (None, s') \<Rightarrow> Launch_loop_y kern thread_dims kernel_thread_dims args z (y + 1) s')
      else (None, s))"
  by pat_completeness auto
termination
proof (relation "measure (\<lambda>(kern, thread_dims, kernel_thread_dims, args, z, y, s).
                   unat (td_y thread_dims) - unat y)")
  fix kern :: "('e, 's) XLA_CPU_Kernel" and thread_dims :: ThreadDim
    and kernel_thread_dims :: XLA_CPU_KernelThreadDim and args :: "XLA_CPU_KernelArg list"
    and z y :: "64 word" and s s' :: 's
  assume "y < td_y thread_dims"
  then have lt: "unat y < unat (td_y thread_dims)"
    by (simp add: word_less_nat_alt)
  moreover have "unat (td_y thread_dims) < 2 ^ 64"
    using unsigned_less [of "td_y thread_dims"] by simp
  ultimately have "unat (y + 1) = Suc (unat y)"
    by (simp add: unat_word_ariths)
  with lt show "((kern, thread_dims, kernel_thread_dims, args, z, y + 1, s'),
                 (kern, thread_dims, kernel_thread_dims, args, z, y, s))
                \<in> measure (\<lambda>(kern, thread_dims, kernel_thread_dims, args, z, y, s).
                     unat (td_y thread_dims) - unat y)"
    by simp
qed simp

declare Launch_loop_y.simps [simp del]

function Launch_loop_z ::
  "('e, 's) XLA_CPU_Kernel \<Rightarrow> ThreadDim \<Rightarrow> XLA_CPU_KernelThreadDim \<Rightarrow> XLA_CPU_KernelArg list \<Rightarrow>
   64 word \<Rightarrow> 's \<Rightarrow> Status option \<times> 's" where
  "Launch_loop_z kern thread_dims kernel_thread_dims args z s =
     (if z < td_z thread_dims then
        (case Launch_loop_y kern thread_dims kernel_thread_dims args z 0 s of
           (Some st, s') \<Rightarrow> (Some st, s')
         | (None, s') \<Rightarrow> Launch_loop_z kern thread_dims kernel_thread_dims args (z + 1) s')
      else (None, s))"
  by pat_completeness auto
termination
proof (relation "measure (\<lambda>(kern, thread_dims, kernel_thread_dims, args, z, s).
                   unat (td_z thread_dims) - unat z)")
  fix kern :: "('e, 's) XLA_CPU_Kernel" and thread_dims :: ThreadDim
    and kernel_thread_dims :: XLA_CPU_KernelThreadDim and args :: "XLA_CPU_KernelArg list"
    and z :: "64 word" and s s' :: 's
  assume "z < td_z thread_dims"
  then have lt: "unat z < unat (td_z thread_dims)"
    by (simp add: word_less_nat_alt)
  moreover have "unat (td_z thread_dims) < 2 ^ 64"
    using unsigned_less [of "td_z thread_dims"] by simp
  ultimately have "unat (z + 1) = Suc (unat z)"
    by (simp add: unat_word_ariths)
  with lt show "((kern, thread_dims, kernel_thread_dims, args, z + 1, s'),
                 (kern, thread_dims, kernel_thread_dims, args, z, s))
                \<in> measure (\<lambda>(kern, thread_dims, kernel_thread_dims, args, z, s).
                     unat (td_z thread_dims) - unat z)"
    by simp
qed simp

declare Launch_loop_z.simps [simp del]

text \<open>
  \<^verbatim>\<open>absl::Status Kernel::Launch(const ThreadDim& thread_dims, absl::Span<const XLA_CPU_KernelArg> args) const\<close>:
  the dimensions are copied into \<open>kernel_thread_dims\<close>, the loops run from \<open>z = 0\<close>, and
  \<^verbatim>\<open>return absl::OkStatus()\<close> follows them. The result is the status and the state the
  kernel calls left.
\<close>

definition Launch ::
  "('e, 's) XLA_CPU_Kernel \<Rightarrow> ThreadDim \<Rightarrow> XLA_CPU_KernelArg list \<Rightarrow> 's \<Rightarrow> Status \<times> 's" where
  "Launch kern thread_dims args s =
     (let kernel_thread_dims =
            \<lparr>ktd_x = td_x thread_dims, ktd_y = td_y thread_dims, ktd_z = td_z thread_dims\<rparr>
      in case Launch_loop_z kern thread_dims kernel_thread_dims args 0 s of
           (Some st, s') \<Rightarrow> (st, s')
         | (None, s') \<Rightarrow> (OkStatus, s'))"

subsection \<open>The parallel task\<close>

text \<open>The members of \<open>KernelParallelTask\<close>: \<open>kernel_\<close>, \<open>thread_dims_\<close> and \<open>args_\<close>.\<close>

record ('e, 's) KernelParallelTask =
  task_kernel :: "('e, 's) XLA_CPU_Kernel"
  task_thread_dims :: XLA_CPU_KernelThreadDim
  task_args :: "XLA_CPU_KernelArg list"

text \<open>The constructor \<^verbatim>\<open>KernelParallelTask(kernel, thread_dims, args)\<close>.\<close>

definition KernelParallelTask_init ::
  "('e, 's) XLA_CPU_Kernel \<Rightarrow> ThreadDim \<Rightarrow> XLA_CPU_KernelArg list \<Rightarrow> ('e, 's) KernelParallelTask" where
  "KernelParallelTask_init kern thread_dims args =
     \<lparr>task_kernel = kern,
      task_thread_dims =
        \<lparr>ktd_x = td_x thread_dims, ktd_y = td_y thread_dims, ktd_z = td_z thread_dims\<rparr>,
      task_args = args\<rparr>"

text \<open>What ends the process instead of returning: a failed check, or a division by zero.\<close>

datatype abort = CheckFailed string | DivisionByZero

text \<open>
  \<^verbatim>\<open>XLA_CPU_KernelThread KernelParallelTask::Delinearize(uint64_t task_index) const\<close>.
  Both divisions are unsigned 64-bit divisions, undefined for a zero stride: the model
  gives \<open>Inl DivisionByZero\<close> there, in the order the code divides.
\<close>

definition Delinearize :: "('e, 's) KernelParallelTask \<Rightarrow> 64 word \<Rightarrow> abort + XLA_CPU_KernelThread" where
  "Delinearize task task_index =
     (let stride_z = ktd_y (task_thread_dims task) * ktd_x (task_thread_dims task);
          stride_y = ktd_x (task_thread_dims task)
      in if stride_z = 0 then Inl DivisionByZero
         else let z = task_index div stride_z;
                  task_index1 = task_index mod stride_z
              in if stride_y = 0 then Inl DivisionByZero
                 else let y = task_index1 div stride_y;
                          task_index2 = task_index1 mod stride_y;
                          x = task_index2
                      in Inr \<lparr>kt_x = x, kt_y = y, kt_z = z\<rparr>)"

text \<open>
  The decimal digits of a number, as \<open>%d\<close> prints them. (\<open>Internal\<close> formats with
  \<open>absl::StrFormat\<close>, which prints an unsigned argument of \<open>%d\<close> as its unsigned value.)
\<close>

definition digits :: string where
  "digits = ''0123456789''"

fun decimal :: "nat \<Rightarrow> string" where
  "decimal n =
     (if n < 10 then [digits ! n]
      else decimal (n div 10) @ [digits ! (n mod 10)])"

declare decimal.simps [simp del]

text \<open>
  \<^verbatim>\<open>absl::Status KernelParallelTask::operator()(uint64_t task_index) const\<close>.
  \<open>DCHECK_LT\<close> is compiled into debug builds only: \<open>dcheck_is_on\<close> says which build runs.
\<close>

definition KernelParallelTask_call ::
  "bool \<Rightarrow> ('e, 's) KernelParallelTask \<Rightarrow> 64 word \<Rightarrow> 's \<Rightarrow> (abort + Status) \<times> 's" where
  "KernelParallelTask_call dcheck_is_on task task_index s =
     (let num_tasks = ktd_x (task_thread_dims task) * ktd_y (task_thread_dims task)
                        * ktd_z (task_thread_dims task)
      in if dcheck_is_on \<and> \<not> task_index < num_tasks
         then (Inl (CheckFailed ''Task index out of range''), s)
         else case Delinearize task task_index of
                Inl a \<Rightarrow> (Inl a, s)
              | Inr kernel_thread \<Rightarrow>
                  (let call_frame = \<lparr>cf_thread_dims = task_thread_dims task,
                                     cf_thread = kernel_thread,
                                     cf_num_args = of_nat (length (task_args task)),
                                     cf_args = task_args task\<rparr>
                   in case task_kernel task call_frame s of
                        (None, s') \<Rightarrow> (Inr OkStatus, s')
                      | (Some error, s') \<Rightarrow>
                          (Inr (InternalError
                                  (''Failed to call host kernel: x=''
                                   @ decimal (unat (kt_x kernel_thread)) @ '', y=''
                                   @ decimal (unat (kt_y kernel_thread)) @ '', z=''
                                   @ decimal (unat (kt_z kernel_thread)))), s')))"

subsection \<open>The launch on a worker pool\<close>

text \<open>
  Modelled from the spec: \<open>Eigen::ThreadPoolDevice\<close> and \<open>Worker::Parallelize\<close>
  (\<open>work_queue.h\<close>) are not among the sources. The spec gives the pool as an external
  collaborator that exposes a thread count and a primitive
  \<open>Parallelize(pool, numWorkers, numTasks, taskBody)\<close> returning the completion signal,
  treated as a black box. The device is its thread count (an \<open>int\<close>), and what
  \<open>Parallelize\<close> returns is kept as the call itself, with its four arguments.
\<close>

record ThreadPoolDevice =
  numThreadsInPool :: "32 word"

text \<open>
  \<open>tsl::AsyncValueRef<LaunchEvent>\<close>, as far as the launch code builds it: the available
  event of \<open>OkLaunchEvent()\<close>, the error value of \<open>MakeErrorAsyncValueRef\<close> (both resolved
  when they are returned), or whatever the pool's \<open>Parallelize\<close> returns.
\<close>

datatype 'task AsyncValueRef =
    OkLaunchEvent
  | MakeErrorAsyncValueRef Status
  | Parallelize ThreadPoolDevice "64 word" "64 word" 'task

text \<open>
  \<^verbatim>\<open>tsl::AsyncValueRef<LaunchEvent> Kernel::Launch(thread_dims, args, device) const\<close>.
  A failed \<open>CHECK_GT\<close> ends the process in every build.
\<close>

definition Launch_async ::
  "('e, 's) XLA_CPU_Kernel \<Rightarrow> ThreadDim \<Rightarrow> XLA_CPU_KernelArg list \<Rightarrow> ThreadPoolDevice \<Rightarrow> 's \<Rightarrow>
   (abort + ('e, 's) KernelParallelTask AsyncValueRef) \<times> 's" where
  "Launch_async kern thread_dims args device s =
     (let num_tasks = td_x thread_dims * td_y thread_dims * td_z thread_dims
      in if num_tasks > 0 then
           (if num_tasks = 1 then
              (case Launch kern thread_dims args s of
                 (launched, s') \<Rightarrow>
                   (Inr (if ok launched then OkLaunchEvent else MakeErrorAsyncValueRef launched), s'))
            else
              (let num_workers = min (min num_tasks (scast (numThreadsInPool device))) 65535
               in (Inr (Parallelize device num_workers num_tasks
                          (KernelParallelTask_init kern thread_dims args)), s)))
         else (Inl (CheckFailed ''Number of tasks must be positive''), s))"

section \<open>What the launch is specified to do\<close>

text \<open>
  The grid in the order the specification gives: \<open>z\<close> outermost, then \<open>y\<close>, and \<open>x\<close> varying
  fastest.
\<close>

definition grid_row :: "ThreadDim \<Rightarrow> nat \<Rightarrow> nat \<Rightarrow> XLA_CPU_KernelThread list" where
  "grid_row thread_dims z y =
     map (\<lambda>x. \<lparr>kt_x = of_nat x, kt_y = of_nat y, kt_z = of_nat z\<rparr>) [0..<unat (td_x thread_dims)]"

definition grid_plane :: "ThreadDim \<Rightarrow> nat \<Rightarrow> XLA_CPU_KernelThread list" where
  "grid_plane thread_dims z = concat (map (grid_row thread_dims z) [0..<unat (td_y thread_dims)])"

definition grid_coordinates :: "ThreadDim \<Rightarrow> XLA_CPU_KernelThread list" where
  "grid_coordinates thread_dims = concat (map (grid_plane thread_dims) [0..<unat (td_z thread_dims)])"

text \<open>
  The coordinates of the grid, and the order "\<open>z\<close> outermost, then \<open>y\<close>, \<open>x\<close> fastest": the
  lexicographic order on \<open>(z, y, x)\<close>.
\<close>

definition in_grid :: "ThreadDim \<Rightarrow> XLA_CPU_KernelThread \<Rightarrow> bool" where
  "in_grid thread_dims t =
     (kt_x t < td_x thread_dims \<and> kt_y t < td_y thread_dims \<and> kt_z t < td_z thread_dims)"

definition zyx_less :: "XLA_CPU_KernelThread \<Rightarrow> XLA_CPU_KernelThread \<Rightarrow> bool" where
  "zyx_less a b =
     (kt_z a < kt_z b
      \<or> (kt_z a = kt_z b \<and> (kt_y a < kt_y b \<or> (kt_y a = kt_y b \<and> kt_x a < kt_x b))))"

text \<open>The call frame for one coordinate: the grid dimensions, the coordinate, the arguments.\<close>

definition frame_at :: "ThreadDim \<Rightarrow> XLA_CPU_KernelArg list \<Rightarrow> XLA_CPU_KernelThread \<Rightarrow> XLA_CPU_KernelCallFrame" where
  "frame_at thread_dims args t =
     \<lparr>cf_thread_dims =
        \<lparr>ktd_x = td_x thread_dims, ktd_y = td_y thread_dims, ktd_z = td_z thread_dims\<rparr>,
      cf_thread = t, cf_num_args = of_nat (length args), cf_args = args\<rparr>"

text \<open>
  Calling the kernel on a list of frames, one after the other, each on the state the
  previous call left: the first non-null error ends the run with a failure (the internal
  error the launch code builds) and the rest of the list is not called; the run succeeds
  when the list is exhausted.
\<close>

fun invoke_seq ::
  "('e, 's) XLA_CPU_Kernel \<Rightarrow> XLA_CPU_KernelCallFrame list \<Rightarrow> 's \<Rightarrow> Status option \<times> 's" where
  "invoke_seq kern [] s = (None, s)"
| "invoke_seq kern (f # fs) s =
     (case kern f s of
        (Some error, s') \<Rightarrow> (Some (InternalError ''Failed to call host kernel''), s')
      | (None, s') \<Rightarrow> invoke_seq kern fs s')"

definition invoke_all ::
  "('e, 's) XLA_CPU_Kernel \<Rightarrow> XLA_CPU_KernelCallFrame list \<Rightarrow> 's \<Rightarrow> Status \<times> 's" where
  "invoke_all kern fs s =
     (case invoke_seq kern fs s of (Some st, s') \<Rightarrow> (st, s') | (None, s') \<Rightarrow> (OkStatus, s'))"

text \<open>The frame of the first call that returns a non-null error, if any call of the run does.\<close>

fun first_failure ::
  "('e, 's) XLA_CPU_Kernel \<Rightarrow> XLA_CPU_KernelCallFrame list \<Rightarrow> 's \<Rightarrow> XLA_CPU_KernelCallFrame option" where
  "first_failure kern [] s = None"
| "first_failure kern (f # fs) s =
     (case kern f s of
        (Some error, s') \<Rightarrow> Some f
      | (None, s') \<Rightarrow> first_failure kern fs s')"

text \<open>
  The rest of the grid from a loop counter on: what is left of a row from \<open>x\<close>, of a
  plane from row \<open>y\<close>, of the grid from plane \<open>z\<close>. These are the loops' invariants.
\<close>

definition row_from :: "ThreadDim \<Rightarrow> 64 word \<Rightarrow> 64 word \<Rightarrow> 64 word \<Rightarrow> XLA_CPU_KernelThread list" where
  "row_from thread_dims z y x =
     map (\<lambda>x. \<lparr>kt_x = of_nat x, kt_y = y, kt_z = z\<rparr>) [unat x..<unat (td_x thread_dims)]"

definition plane_from :: "ThreadDim \<Rightarrow> 64 word \<Rightarrow> 64 word \<Rightarrow> XLA_CPU_KernelThread list" where
  "plane_from thread_dims z y =
     concat (map (\<lambda>y. row_from thread_dims z (of_nat y) 0) [unat y..<unat (td_y thread_dims)])"

definition grid_from :: "ThreadDim \<Rightarrow> 64 word \<Rightarrow> XLA_CPU_KernelThread list" where
  "grid_from thread_dims z =
     concat (map (\<lambda>z. plane_from thread_dims (of_nat z) 0) [unat z..<unat (td_z thread_dims)])"

text \<open>
  A message includes a coordinate when the decimal numerals of its three components all
  occur in it (the weakest reading: nothing is asked of their order or of what is
  written around them).
\<close>

fun contains :: "string \<Rightarrow> string \<Rightarrow> bool" where
  "contains ndl [] = (ndl = [])"
| "contains ndl (c # cs) = (take (length ndl) (c # cs) = ndl \<or> contains ndl cs)"

definition includes_coordinate :: "string \<Rightarrow> XLA_CPU_KernelThread \<Rightarrow> bool" where
  "includes_coordinate msg t =
     (contains (decimal (unat (kt_x t))) msg \<and> contains (decimal (unat (kt_y t))) msg
      \<and> contains (decimal (unat (kt_z t))) msg)"

definition failure_names_coordinate :: "Status \<Rightarrow> XLA_CPU_KernelThread \<Rightarrow> bool" where
  "failure_names_coordinate st t =
     (case st of OkStatus \<Rightarrow> False | InternalError msg \<Rightarrow> includes_coordinate msg t)"

text \<open>
  Two kernels to run the launch on. Both keep, as their state, the list of the
  coordinates they were called at, in call order; the second returns an error at one
  coordinate.
\<close>

definition recording_kernel :: "(unit, XLA_CPU_KernelThread list) XLA_CPU_Kernel" where
  "recording_kernel call_frame calls = (None, calls @ [cf_thread call_frame])"

definition failing_kernel_at ::
  "XLA_CPU_KernelThread \<Rightarrow> (unit, XLA_CPU_KernelThread list) XLA_CPU_Kernel" where
  "failing_kernel_at t call_frame calls =
     (if cf_thread call_frame = t then Some () else None, calls @ [cf_thread call_frame])"

section \<open>Bit-level facts about the packing\<close>

lemma Suc_Suc_diff_2: "2 \<le> n \<Longrightarrow> Suc (Suc (n - 2)) = n"
  by arith

lemma bit_2_word_bound: "bit (k :: 2 word) n \<Longrightarrow> n < 2"
  using bit_imp_le_length [of k n] by simp

lemma bit_62_word_bound: "bit (k :: 62 word) n \<Longrightarrow> n < 62"
  using bit_imp_le_length [of k n] by simp

lemma bit_64_word_bound: "bit (k :: 64 word) n \<Longrightarrow> n < 64"
  using bit_imp_le_length [of k n] by simp

lemma double_shift_low_bits: "drop_bit 62 (push_bit 62 (w :: 64 word)) = take_bit 2 w"
  by (rule bit_word_eqI) (auto simp: bit_simps)

lemma Unpack_bits: "Unpack w = (take_bit 2 w, drop_bit 2 w)"
  by (simp add: Unpack_def double_shift_low_bits)

lemma take_bit_2_and_3: "take_bit 2 (w :: 64 word) = w AND 3"
proof -
  have "(3 :: 64 word) = mask 2" by (simp add: mask_eq_exp_minus_1)
  then show ?thesis by (simp add: take_bit_eq_mask)
qed

lemma recombine: "push_bit 2 (drop_bit 2 (w :: 64 word)) OR take_bit 2 w = w"
  by (rule bit_word_eqI) (auto simp: bit_simps Suc_Suc_diff_2 not_less)

lemma ucast_2_64_2: "ucast (ucast (k :: 2 word) :: 64 word) = k"
  by (rule bit_word_eqI) (auto simp: bit_simps)

lemma ucast_62_64_62: "ucast (ucast (k :: 62 word) :: 64 word) = k"
  by (rule bit_word_eqI) (auto simp: bit_simps)

lemma ucast_64_2_64: "ucast (ucast (k :: 64 word) :: 2 word) = take_bit 2 k"
  by (rule bit_word_eqI) (auto simp: bit_simps)

lemma ucast_64_62_64: "ucast (ucast (k :: 64 word) :: 62 word) = take_bit 62 k"
  by (rule bit_word_eqI) (auto simp: bit_simps)

lemma take_bit_62_drop_bit_2: "take_bit 62 (drop_bit 2 (w :: 64 word)) = drop_bit 2 w"
  by (rule bit_word_eqI) (auto simp: bit_simps dest: bit_64_word_bound)

lemma take_bit_self: "unat (w :: 64 word) < 2 ^ n \<Longrightarrow> take_bit n w = w"
  by (simp add: word_unat_eq_iff unsigned_take_bit_eq take_bit_nat_eq_self)

lemma kind_fits: "(k :: 64 word) \<le> 3 \<Longrightarrow> ucast (ucast k :: 2 word) = k"
  by (simp add: ucast_64_2_64 take_bit_self word_le_nat_alt)

lemma size_fits: "(s :: 64 word) < 2 ^ 62 \<Longrightarrow> ucast (ucast s :: 62 word) = s"
  by (simp add: ucast_64_62_64 take_bit_self word_less_nat_alt)

lemma take_bit_2_Pack: "take_bit 2 (push_bit 2 (s :: 64 word) OR ucast (k :: 2 word)) = ucast k"
  by (rule bit_word_eqI) (auto simp: bit_simps dest: bit_2_word_bound)

lemma drop_bit_2_Pack:
  "drop_bit 2 (push_bit 2 (ucast (s :: 62 word) :: 64 word) OR ucast (k :: 2 word)) = ucast s"
  by (rule bit_word_eqI) (auto simp: bit_simps dest: bit_2_word_bound bit_62_word_bound)

lemma Unpack_Pack_fields:
  "Unpack (Pack (ucast (k :: 2 word)) (ucast (s :: 62 word))) = (ucast k, ucast s)"
  by (simp only: Unpack_bits Pack_def take_bit_2_Pack drop_bit_2_Pack)

lemma Unpack_Pack: "k \<le> 3 \<Longrightarrow> s < 2 ^ 62 \<Longrightarrow> Unpack (Pack k s) = (k, s)"
  using Unpack_Pack_fields [of "ucast k" "ucast s"] by (simp add: kind_fits size_fits)

lemma Unpack_kind_bound: "unat (fst (Unpack w)) < 4"
proof -
  have "unat (take_bit 2 w) < 2 ^ 2"
    by (simp only: unsigned_take_bit_eq take_bit_nat_less_exp)
  then show ?thesis by (simp add: Unpack_bits)
qed

lemma BufferInfo_of_encoding_Encode: "BufferInfo_of_encoding (Encode b) = b"
  by (simp add: Encode_def BufferInfo_of_encoding_def kind_def Unpack_Pack_fields
      ucast_2_64_2 ucast_62_64_62)

lemma Encode_BufferInfo_of_encoding: "Encode (BufferInfo_of_encoding w) = w"
  by (cases w)
    (simp add: Encode_def BufferInfo_of_encoding_def Unpack_bits kind_def Pack_def
      ucast_64_2_64 ucast_64_62_64 take_bit_62_drop_bit_2 recombine)

lemma operator_eq_refl: "operator_eq b b = Some True"
  by (simp add: operator_eq_def entry_parameter_number_def)

lemma kind_BufferInfo_of_encoding: "kind (BufferInfo_of_encoding w) = take_bit 2 (fst w)"
  by (simp add: BufferInfo_of_encoding_def Unpack_bits kind_def ucast_64_2_64)

lemma size_of_BufferInfo_of_encoding: "size_of (BufferInfo_of_encoding w) = drop_bit 2 (fst w)"
  by (simp add: BufferInfo_of_encoding_def Unpack_bits size_of_def ucast_64_62_64
      take_bit_62_drop_bit_2)

lemma two_bit_values: "take_bit 2 (w :: 64 word) \<in> {0, 1, 2, 3}"
proof -
  have "unat (take_bit 2 w) < 4"
    using take_bit_nat_less_exp [of 2 "unat w"] by (simp add: unsigned_take_bit_eq)
  then have "unat (take_bit 2 w) \<in> {0, 1, 2, 3}" by auto
  then show ?thesis by (auto simp: word_unat_eq_iff)
qed

lemma kind_init: "k \<le> 3 \<Longrightarrow> kind (BufferInfo_init k s p) = k"
  by (simp add: kind_def BufferInfo_init_def kind_fits)

lemma size_of_init: "s < 2 ^ 62 \<Longrightarrow> size_of (BufferInfo_init k s p) = s"
  by (simp add: size_of_def BufferInfo_init_def size_fits)

lemma Encode_init:
  "k \<le> 3 \<Longrightarrow> s < 2 ^ 62 \<Longrightarrow> Encode (BufferInfo_init k s p) = (Pack k s, p)"
  by (simp add: Encode_def BufferInfo_init_def kind_def kind_fits size_fits)

lemma unat_Pack: 
  assumes "k \<le> 3" "s < 2 ^ 62" shows "unat (Pack k s) = 4 * unat s + unat k"
proof -
  have k: "unat k < 4" using assms(1) by (simp add: word_le_nat_alt)
  have s: "unat s < 2 ^ 62" using assms(2) by (simp add: word_less_nat_alt)
  have "take_bit 2 k = k" using k by (simp add: take_bit_self)
  then have low: "\<And>n. bit k n \<Longrightarrow> n < 2"
    by (metis bit_take_bit_iff)
  have "push_bit 2 s OR k = push_bit 2 s + k"
    by (intro disjunctive_add [symmetric]) (auto simp: bit_simps dest: low)
  then have "unat (Pack k s) = (4 * unat s + unat k) mod 2 ^ 64"
    by (simp add: Pack_def unat_word_ariths push_bit_eq_mult mod_simps mult.commute)
  then show ?thesis using k s by simp
qed


section \<open>Claims about buffer descriptors\<close>

text \<open>
  C1. Round trip: a descriptor made by any of the four factory methods, for every size
  (so for 0, 1 and \<open>2^62 - 1\<close>) and every parameter number (so for \<open>-1\<close>), is
  reproduced by decoding its two-word encoding: the decoded descriptor is the same
  value, and \<open>operator==\<close> says so.
\<close>

theorem factory_round_trip:
  "BufferInfo_of_encoding (Encode (MakeTempBuffer sz)) = MakeTempBuffer sz
   \<and> operator_eq (BufferInfo_of_encoding (Encode (MakeTempBuffer sz))) (MakeTempBuffer sz) = Some True
   \<and> BufferInfo_of_encoding (Encode (MakeConstant sz)) = MakeConstant sz
   \<and> operator_eq (BufferInfo_of_encoding (Encode (MakeConstant sz))) (MakeConstant sz) = Some True
   \<and> BufferInfo_of_encoding (Encode (MakeEntryParameter sz n)) = MakeEntryParameter sz n
   \<and> operator_eq (BufferInfo_of_encoding (Encode (MakeEntryParameter sz n)))
         (MakeEntryParameter sz n) = Some True
   \<and> BufferInfo_of_encoding (Encode (MakeOnStackBuffer sz)) = MakeOnStackBuffer sz
   \<and> operator_eq (BufferInfo_of_encoding (Encode (MakeOnStackBuffer sz))) (MakeOnStackBuffer sz)
       = Some True"
  by (simp add: BufferInfo_of_encoding_Encode operator_eq_refl)

theorem factory_round_trip_witness:
  "Encode (MakeEntryParameter (2 ^ 62 - 1) (- 1)) = (0xFFFFFFFFFFFFFFFE, 0xFFFFFFFFFFFFFFFF)
   \<and> BufferInfo_of_encoding (Encode (MakeEntryParameter (2 ^ 62 - 1) (- 1)))
       = MakeEntryParameter (2 ^ 62 - 1) (- 1)
   \<and> operator_eq (BufferInfo_of_encoding (Encode (MakeEntryParameter (2 ^ 62 - 1) (- 1))))
         (MakeEntryParameter (2 ^ 62 - 1) (- 1)) = Some True
   \<and> operator_eq (BufferInfo_of_encoding (Encode (MakeTempBuffer 0))) (MakeTempBuffer 0) = Some True
   \<and> operator_eq (BufferInfo_of_encoding (Encode (MakeConstant 1))) (MakeConstant 1) = Some True"
proof -
  have "Encode (MakeEntryParameter (2 ^ 62 - 1) (- 1)) = (0xFFFFFFFFFFFFFFFE, 0xFFFFFFFFFFFFFFFF)"
    by (simp add: Encode_def MakeEntryParameter_def BufferInfo_init_def kind_def Pack_def
        kEntryParameter_def)
  then show ?thesis
    using factory_round_trip [of "2 ^ 62 - 1" "- 1"] factory_round_trip [of 0 0]
      factory_round_trip [of 1 0]
    by blast
qed

text \<open>
  C7. Equality: two entry-parameter descriptors of equal size and different parameter
  numbers compare unequal; two descriptors of the same kind other than entry parameter
  and of equal size compare equal, whatever their parameter-number fields hold.
\<close>

theorem operator_eq_law:
  "(is_entry_parameter a \<and> is_entry_parameter b \<and> size_of a = size_of b
      \<and> entry_param_number_f a \<noteq> entry_param_number_f b
      \<longrightarrow> operator_eq a b = Some False)
   \<and> (\<not> is_entry_parameter c \<and> kind c = kind d \<and> size_of c = size_of d
      \<longrightarrow> operator_eq c d = Some True)"
  by (auto simp: operator_eq_def is_entry_parameter_def entry_parameter_number_def)

theorem operator_eq_law_witness:
  "is_entry_parameter (MakeEntryParameter 8 0) \<and> is_entry_parameter (MakeEntryParameter 8 1)
   \<and> size_of (MakeEntryParameter 8 0) = size_of (MakeEntryParameter 8 1)
   \<and> entry_param_number_f (MakeEntryParameter 8 0) \<noteq> entry_param_number_f (MakeEntryParameter 8 1)
   \<and> operator_eq (MakeEntryParameter 8 0) (MakeEntryParameter 8 1) = Some False
   \<and> \<not> is_entry_parameter (MakeConstant 8)
   \<and> kind (MakeConstant 8) = kind ((MakeConstant 8)\<lparr>entry_param_number_f := 5\<rparr>)
   \<and> size_of (MakeConstant 8) = size_of ((MakeConstant 8)\<lparr>entry_param_number_f := 5\<rparr>)
   \<and> entry_param_number_f (MakeConstant 8)
       \<noteq> entry_param_number_f ((MakeConstant 8)\<lparr>entry_param_number_f := 5\<rparr>)
   \<and> operator_eq (MakeConstant 8) ((MakeConstant 8)\<lparr>entry_param_number_f := 5\<rparr>) = Some True"
proof -
  have pre:
    "is_entry_parameter (MakeEntryParameter 8 0) \<and> is_entry_parameter (MakeEntryParameter 8 1)
     \<and> size_of (MakeEntryParameter 8 0) = size_of (MakeEntryParameter 8 1)
     \<and> entry_param_number_f (MakeEntryParameter 8 0) \<noteq> entry_param_number_f (MakeEntryParameter 8 1)
     \<and> \<not> is_entry_parameter (MakeConstant 8)
     \<and> kind (MakeConstant 8) = kind ((MakeConstant 8)\<lparr>entry_param_number_f := 5\<rparr>)
     \<and> size_of (MakeConstant 8) = size_of ((MakeConstant 8)\<lparr>entry_param_number_f := 5\<rparr>)
     \<and> entry_param_number_f (MakeConstant 8)
       \<noteq> entry_param_number_f ((MakeConstant 8)\<lparr>entry_param_number_f := 5\<rparr>)"
    by (simp add: is_entry_parameter_def MakeEntryParameter_def MakeConstant_def
        BufferInfo_init_def kind_def size_of_def kEntryParameter_def kConstant_def)
  then show ?thesis
    using operator_eq_law [of "MakeEntryParameter 8 0" "MakeEntryParameter 8 1"
        "MakeConstant 8" "(MakeConstant 8)\<lparr>entry_param_number_f := 5\<rparr>"]
    by blast
qed

text \<open>
  C8. Packing: for a kind \<open>k\<close> in \<open>{0, 1, 2, 3}\<close> and a size \<open>s < 2^62\<close> the packed word is
  \<open>(s << 2) | k\<close>, that is \<open>4 s + k\<close>; unpacking any word \<open>w\<close> gives the size \<open>w >> 2\<close> and,
  as kind, the low two bits of \<open>w\<close> as an unsigned number below 4; so unpacking the packed
  word gives back \<open>k\<close> and \<open>s\<close>, and through an encode and decode of a descriptor the
  kind does not depend on the size, nor the size on the kind.
\<close>

theorem Pack_Unpack_law:
  "(k \<le> 3 \<and> s < 2 ^ 62 \<longrightarrow>
      Pack k s = push_bit 2 s OR k
      \<and> fst (Encode (BufferInfo_init k s p)) = push_bit 2 s OR k
      \<and> unat (Pack k s) = 4 * unat s + unat k
      \<and> Unpack (Pack k s) = (k, s)
      \<and> kind (BufferInfo_of_encoding (Encode (BufferInfo_init k s p))) = k
      \<and> size_of (BufferInfo_of_encoding (Encode (BufferInfo_init k s p))) = s)
   \<and> Unpack w = (w AND 3, drop_bit 2 w)
   \<and> unat (fst (Unpack w)) < 4"
proof (intro conjI impI)
  assume range: "k \<le> 3 \<and> s < 2 ^ 62"
  show "Pack k s = push_bit 2 s OR k"
    by (simp add: Pack_def)
  show "fst (Encode (BufferInfo_init k s p)) = push_bit 2 s OR k"
    using range by (simp add: Encode_init Pack_def)
  show "unat (Pack k s) = 4 * unat s + unat k"
    using range by (simp add: unat_Pack)
  show "Unpack (Pack k s) = (k, s)"
    using range by (simp add: Unpack_Pack)
  show "kind (BufferInfo_of_encoding (Encode (BufferInfo_init k s p))) = k"
    using range by (simp only: BufferInfo_of_encoding_Encode kind_init)
  show "size_of (BufferInfo_of_encoding (Encode (BufferInfo_init k s p))) = s"
    using range by (simp only: BufferInfo_of_encoding_Encode size_of_init)
next
  show "Unpack w = (w AND 3, drop_bit 2 w)"
    by (simp add: Unpack_bits take_bit_2_and_3)
  show "unat (fst (Unpack w)) < 4"
    by (rule Unpack_kind_bound)
qed

theorem Pack_Unpack_law_witness:
  "(3 :: 64 word) \<le> 3 \<and> (2 ^ 62 - 1 :: 64 word) < 2 ^ 62
   \<and> Pack 3 (2 ^ 62 - 1) = 0xFFFFFFFFFFFFFFFF
   \<and> fst (Encode (BufferInfo_init 3 (2 ^ 62 - 1) 0)) = 0xFFFFFFFFFFFFFFFF
   \<and> Unpack 0xFFFFFFFFFFFFFFFF = (3, 2 ^ 62 - 1)
   \<and> kind (BufferInfo_of_encoding (Encode (BufferInfo_init 3 (2 ^ 62 - 1) 0))) = 3
   \<and> size_of (BufferInfo_of_encoding (Encode (BufferInfo_init 3 (2 ^ 62 - 1) 0))) = 2 ^ 62 - 1
   \<and> Unpack 0x8000000000000002 = (2, 0x2000000000000000)"
proof -
  have pre: "(3 :: 64 word) \<le> 3 \<and> (2 ^ 62 - 1 :: 64 word) < 2 ^ 62"
    by simp
  have packed: "Pack 3 (2 ^ 62 - 1) = 0xFFFFFFFFFFFFFFFF"
    by (simp add: Pack_def)
  have "Unpack 0x8000000000000002 = (2, 0x2000000000000000)"
    using Pack_Unpack_law [of 0 0 0 "0x8000000000000002"] by simp
  with pre packed show ?thesis
    using Pack_Unpack_law [of 3 "2 ^ 62 - 1" 0 0] by simp
qed

text \<open>
  C10. The decoding constructor is defined on every pair of 64-bit words, and encoding
  what it builds gives the pair back: every two-bit pattern is one of the four kinds,
  and the 62 size bits and the 64 bits of the parameter number are kept as they are.
\<close>

theorem Encode_left_inverse:
  "Encode (BufferInfo_of_encoding w) = w
   \<and> kind (BufferInfo_of_encoding w) \<in> {kConstant, kTempBuffer, kEntryParameter, kOnStackBuffer}
   \<and> size_of (BufferInfo_of_encoding w) = drop_bit 2 (fst w)
   \<and> entry_param_number_f (BufferInfo_of_encoding w) = snd w"
  using two_bit_values [of "fst w"]
  by (simp add: Encode_BufferInfo_of_encoding kind_BufferInfo_of_encoding
      size_of_BufferInfo_of_encoding kConstant_def kTempBuffer_def kEntryParameter_def
      kOnStackBuffer_def)
    (simp add: BufferInfo_of_encoding_def split: prod.splits)

theorem Encode_left_inverse_witness:
  "Encode (BufferInfo_of_encoding (0xDEADBEEFDEADBEEF, 0x0123456789ABCDEF))
     = (0xDEADBEEFDEADBEEF, 0x0123456789ABCDEF)
   \<and> kind (BufferInfo_of_encoding (0xDEADBEEFDEADBEEF, 0x0123456789ABCDEF)) = kOnStackBuffer
   \<and> size_of (BufferInfo_of_encoding (0xDEADBEEFDEADBEEF, 0x0123456789ABCDEF))
       = 0x37AB6FBBF7AB6FBB"
  using Encode_left_inverse [of "(0xDEADBEEFDEADBEEF, 0x0123456789ABCDEF)"]
  by (simp add: kind_BufferInfo_of_encoding kOnStackBuffer_def)

section \<open>The synchronous launch runs the grid in order\<close>

lemma unat_plus_one: "(x :: 64 word) < b \<Longrightarrow> unat (x + 1) = Suc (unat x)"
proof -
  assume "x < b"
  then have "unat x < unat b" by (simp add: word_less_nat_alt)
  moreover have "unat b < 2 ^ 64" using unsigned_less [of b] by simp
  ultimately show ?thesis by (simp add: unat_word_ariths)
qed

lemma invoke_seq_append:
  "invoke_seq kern (fs @ gs) s =
     (case invoke_seq kern fs s of
        (Some st, s') \<Rightarrow> (Some st, s')
      | (None, s') \<Rightarrow> invoke_seq kern gs s')"
  by (induction fs arbitrary: s) (auto split: prod.splits option.splits)

lemma row_from_step:
  "x < td_x d \<Longrightarrow> row_from d z y x = \<lparr>kt_x = x, kt_y = y, kt_z = z\<rparr> # row_from d z y (x + 1)"
  by (simp add: row_from_def upt_conv_Cons word_less_nat_alt unat_plus_one)

lemma row_from_end: "\<not> x < td_x d \<Longrightarrow> row_from d z y x = []"
  by (simp add: row_from_def word_less_nat_alt)

lemma plane_from_step:
  "y < td_y d \<Longrightarrow> plane_from d z y = row_from d z y 0 @ plane_from d z (y + 1)"
  by (simp add: plane_from_def upt_conv_Cons word_less_nat_alt unat_plus_one)

lemma plane_from_end: "\<not> y < td_y d \<Longrightarrow> plane_from d z y = []"
  by (simp add: plane_from_def word_less_nat_alt)

lemma grid_from_step:
  "z < td_z d \<Longrightarrow> grid_from d z = plane_from d z 0 @ grid_from d (z + 1)"
  by (simp add: grid_from_def upt_conv_Cons word_less_nat_alt unat_plus_one)

lemma grid_from_end: "\<not> z < td_z d \<Longrightarrow> grid_from d z = []"
  by (simp add: grid_from_def word_less_nat_alt)

lemma Launch_loop_x_seq:
  "Launch_loop_x kern d \<lparr>ktd_x = td_x d, ktd_y = td_y d, ktd_z = td_z d\<rparr> args z y x s =
     invoke_seq kern (map (frame_at d args) (row_from d z y x)) s"
proof (induction kern d "\<lparr>ktd_x = td_x d, ktd_y = td_y d, ktd_z = td_z d\<rparr>" args z y x s
       rule: Launch_loop_x.induct)
  case (1 kern d args z y x s)
  show ?case
  proof (cases "x < td_x d")
    case True
    then show ?thesis
      using 1 by (subst Launch_loop_x.simps)
        (auto simp: row_from_step frame_at_def Let_def split: prod.splits option.splits)
  next
    case False
    then show ?thesis
      by (subst Launch_loop_x.simps) (simp add: row_from_end)
  qed
qed

lemma Launch_loop_y_seq:
  "Launch_loop_y kern d \<lparr>ktd_x = td_x d, ktd_y = td_y d, ktd_z = td_z d\<rparr> args z y s =
     invoke_seq kern (map (frame_at d args) (plane_from d z y)) s"
proof (induction kern d "\<lparr>ktd_x = td_x d, ktd_y = td_y d, ktd_z = td_z d\<rparr>" args z y s
       rule: Launch_loop_y.induct)
  case (1 kern d args z y s)
  show ?case
  proof (cases "y < td_y d")
    case True
    then show ?thesis
      using 1 by (subst Launch_loop_y.simps)
        (auto simp: plane_from_step invoke_seq_append Launch_loop_x_seq
              split: prod.splits option.splits)
  next
    case False
    then show ?thesis
      by (subst Launch_loop_y.simps) (simp add: plane_from_end)
  qed
qed

lemma Launch_loop_z_seq:
  "Launch_loop_z kern d \<lparr>ktd_x = td_x d, ktd_y = td_y d, ktd_z = td_z d\<rparr> args z s =
     invoke_seq kern (map (frame_at d args) (grid_from d z)) s"
proof (induction kern d "\<lparr>ktd_x = td_x d, ktd_y = td_y d, ktd_z = td_z d\<rparr>" args z s
       rule: Launch_loop_z.induct)
  case (1 kern d args z s)
  show ?case
  proof (cases "z < td_z d")
    case True
    then show ?thesis
      using 1 by (subst Launch_loop_z.simps)
        (auto simp: grid_from_step invoke_seq_append Launch_loop_y_seq
              split: prod.splits option.splits)
  next
    case False
    then show ?thesis
      by (subst Launch_loop_z.simps) (simp add: grid_from_end)
  qed
qed

lemma grid_from_0: "grid_from d 0 = grid_coordinates d"
  by (simp add: grid_from_def plane_from_def row_from_def grid_coordinates_def
      grid_plane_def [abs_def] grid_row_def [abs_def])

lemma Launch_invoke_all:
  "Launch kern d args s = invoke_all kern (map (frame_at d args) (grid_coordinates d)) s"
  by (simp add: Launch_def invoke_all_def Launch_loop_z_seq grid_from_0)

subsection \<open>The failure of a run\<close>

lemma first_failure_Some:
  "first_failure kern fs s = Some f \<Longrightarrow>
     \<exists>s'. invoke_seq kern fs s = (Some (InternalError ''Failed to call host kernel''), s')"
  by (induction fs arbitrary: s) (auto split: prod.splits option.splits)

lemma first_failure_None:
  "first_failure kern fs s = None \<Longrightarrow> \<exists>s'. invoke_seq kern fs s = (None, s')"
  by (induction fs arbitrary: s) (auto split: prod.splits option.splits)

lemma first_failure_in_run: "first_failure kern fs s = Some f \<Longrightarrow> f \<in> set fs"
proof (induction fs arbitrary: s)
  case Nil
  then show ?case by simp
next
  case (Cons g gs)
  show ?case
  proof (cases "kern g s")
    case (Pair e s')
    show ?thesis
    proof (cases e)
      case None
      with Pair Cons.prems have "first_failure kern gs s' = Some f" by simp
      then show ?thesis using Cons.IH by simp
    next
      case (Some a)
      with Pair Cons.prems show ?thesis by simp
    qed
  qed
qed

subsection \<open>Numerals in messages\<close>

lemma contains_set: "contains ndl hay \<Longrightarrow> set ndl \<subseteq> set hay"
proof (induction hay)
  case Nil
  then show ?case by simp
next
  case (Cons c cs)
  from Cons.prems have "take (length ndl) (c # cs) = ndl \<or> contains ndl cs"
    by simp
  then show ?case
  proof
    assume "take (length ndl) (c # cs) = ndl"
    then have "set ndl = set (take (length ndl) (c # cs))" by simp
    then show ?thesis using set_take_subset [of "length ndl" "c # cs"] by simp
  next
    assume "contains ndl cs"
    then show ?thesis using Cons.IH by auto
  qed
qed

lemma digit_char: "n < 10 \<Longrightarrow> digits ! n \<in> set digits"
  by (rule nth_mem) (simp add: digits_def)

lemma decimal_digits: "decimal n \<noteq> [] \<and> set (decimal n) \<subseteq> set digits"
proof (induction n rule: decimal.induct)
  case (1 n)
  show ?case
  proof (cases "n < 10")
    case True
    then have "decimal n = [digits ! n]"
      by (subst decimal.simps) simp
    then show ?thesis
      using digit_char [OF True] by simp
  next
    case False
    then have "decimal n = decimal (n div 10) @ [digits ! (n mod 10)]"
      by (subst decimal.simps) simp
    moreover have "digits ! (n mod 10) \<in> set digits"
      by (rule digit_char) simp
    ultimately show ?thesis
      using 1 [OF False] by simp
  qed
qed

lemma no_numeral_in_message: "\<not> contains (decimal n) ''Failed to call host kernel''"
proof
  assume "contains (decimal n) ''Failed to call host kernel''"
  then have sub: "set (decimal n) \<subseteq> set ''Failed to call host kernel''"
    by (rule contains_set)
  obtain c where c: "c \<in> set (decimal n)"
    using decimal_digits [of n] by (cases "decimal n") auto
  then have "c \<in> set digits" using decimal_digits [of n] by blast
  moreover have "c \<in> set ''Failed to call host kernel''" using c sub by blast
  ultimately show False by (auto simp: digits_def)
qed

lemma message_without_coordinate:
  "\<not> includes_coordinate ''Failed to call host kernel'' t"
  by (simp only: includes_coordinate_def no_numeral_in_message simp_thms)

subsection \<open>Empty grids and the grid of one task\<close>

lemma grid_coordinates_empty:
  "td_x d = 0 \<or> td_y d = 0 \<or> td_z d = 0 \<Longrightarrow> grid_coordinates d = []"
  by (auto simp: grid_coordinates_def grid_plane_def grid_row_def)

lemma Launch_empty_grid:
  "td_x d = 0 \<or> td_y d = 0 \<or> td_z d = 0 \<Longrightarrow> Launch kern d args s = (OkStatus, s)"
  by (simp add: Launch_invoke_all grid_coordinates_empty invoke_all_def)

lemma product_zero: "td_x d = 0 \<or> td_y d = 0 \<or> td_z d = 0 \<Longrightarrow> td_x d * td_y d * td_z d = 0"
  by auto

lemma Launch_async_zero:
  "td_x d * td_y d * td_z d = 0 \<Longrightarrow>
     Launch_async kern d args device s = (Inl (CheckFailed ''Number of tasks must be positive''), s)"
  by (simp add: Launch_async_def)

lemma Launch_async_one:
  "td_x d * td_y d * td_z d = 1 \<Longrightarrow>
     Launch_async kern d args device s =
       (case Launch kern d args s of
          (launched, s') \<Rightarrow>
            (Inr (if launched = OkStatus then OkLaunchEvent else MakeErrorAsyncValueRef launched), s'))"
  by (simp add: Launch_async_def ok_def)

lemma unit_grid:
  assumes "unat (td_x d) * unat (td_y d) * unat (td_z d) = 1"
  shows "td_x d = 1 \<and> td_y d = 1 \<and> td_z d = 1"
proof -
  from assms have "unat (td_x d) = 1 \<and> unat (td_y d) = 1 \<and> unat (td_z d) = 1"
    by simp
  then show ?thesis by (simp add: word_unat_eq_iff)
qed

lemma grid_coordinates_unit:
  "td_x d = 1 \<and> td_y d = 1 \<and> td_z d = 1 \<Longrightarrow>
     grid_coordinates d = [\<lparr>kt_x = 0, kt_y = 0, kt_z = 0\<rparr>]"
  by (simp add: grid_coordinates_def grid_plane_def grid_row_def)

lemma Launch_unit_grid:
  "td_x d = 1 \<and> td_y d = 1 \<and> td_z d = 1 \<Longrightarrow>
     Launch kern d args s =
       (case kern (frame_at d args \<lparr>kt_x = 0, kt_y = 0, kt_z = 0\<rparr>) s of
          (None, s') \<Rightarrow> (OkStatus, s')
        | (Some error, s') \<Rightarrow> (InternalError ''Failed to call host kernel'', s'))"
  by (simp add: Launch_invoke_all grid_coordinates_unit invoke_all_def
      split: prod.splits option.splits)


subsection \<open>The grid list holds each coordinate of the grid once, in order\<close>

lemma of_nat_less_word:
  "i < j \<Longrightarrow> j < unat (b :: 64 word) \<Longrightarrow> (of_nat i :: 64 word) < of_nat j \<and> (of_nat j :: 64 word) < b"
proof -
  assume ij: "i < j" and jb: "j < unat b"
  have "unat b < 2 ^ 64" using unsigned_less [of b] by simp
  with ij jb have "unat (of_nat i :: 64 word) = i" "unat (of_nat j :: 64 word) = j"
    by (simp_all add: unat_of_nat)
  with ij jb show ?thesis by (simp add: word_less_nat_alt)
qed

lemma of_nat_below: "j < unat (b :: 64 word) \<Longrightarrow> (of_nat j :: 64 word) < b"
proof -
  assume jb: "j < unat b"
  have "unat b < 2 ^ 64" using unsigned_less [of b] by simp
  with jb have "unat (of_nat j :: 64 word) = j" by (simp add: unat_of_nat)
  with jb show ?thesis by (simp add: word_less_nat_alt)
qed

lemma sorted_wrt_concat_map_upt:
  assumes "\<And>i. i < n \<Longrightarrow> sorted_wrt P (f i)"
    and "\<And>i j u v. i < j \<Longrightarrow> j < n \<Longrightarrow> u \<in> set (f i) \<Longrightarrow> v \<in> set (f j) \<Longrightarrow> P u v"
  shows "sorted_wrt P (concat (map f [0..<n]))"
  using assms
proof (induction n)
  case 0
  then show ?case by simp
next
  case (Suc n)
  have "sorted_wrt P (concat (map f [0..<n]))"
    using Suc.prems by (intro Suc.IH) auto
  moreover have "sorted_wrt P (f n)"
    using Suc.prems(1) by simp
  moreover have "\<forall>u \<in> set (concat (map f [0..<n])). \<forall>v \<in> set (f n). P u v"
    using Suc.prems(2) by auto
  ultimately show ?case by (simp add: sorted_wrt_append)
qed

lemma grid_row_elem:
  "u \<in> set (grid_row d z y) \<longleftrightarrow>
     (\<exists>x < unat (td_x d). u = \<lparr>kt_x = of_nat x, kt_y = of_nat y, kt_z = of_nat z\<rparr>)"
  by (auto simp: grid_row_def)

lemma grid_plane_elem:
  "u \<in> set (grid_plane d z) \<longleftrightarrow>
     (\<exists>y < unat (td_y d). \<exists>x < unat (td_x d).
        u = \<lparr>kt_x = of_nat x, kt_y = of_nat y, kt_z = of_nat z\<rparr>)"
  by (auto simp: grid_plane_def grid_row_elem)

lemma grid_coordinates_elem:
  "u \<in> set (grid_coordinates d) \<longleftrightarrow>
     (\<exists>z < unat (td_z d). \<exists>y < unat (td_y d). \<exists>x < unat (td_x d).
        u = \<lparr>kt_x = of_nat x, kt_y = of_nat y, kt_z = of_nat z\<rparr>)"
  by (simp add: grid_coordinates_def grid_plane_elem Bex_def)

lemma set_grid_coordinates: "set (grid_coordinates d) = {t. in_grid d t}"
proof (rule set_eqI)
  fix t
  show "t \<in> set (grid_coordinates d) \<longleftrightarrow> t \<in> {t. in_grid d t}"
  proof
    assume "t \<in> set (grid_coordinates d)"
    then show "t \<in> {t. in_grid d t}"
      by (auto simp: grid_coordinates_elem in_grid_def of_nat_below)
  next
    assume "t \<in> {t. in_grid d t}"
    then have lt: "unat (kt_x t) < unat (td_x d)" "unat (kt_y t) < unat (td_y d)"
      "unat (kt_z t) < unat (td_z d)"
      by (simp_all add: in_grid_def word_less_nat_alt)
    have "t = \<lparr>kt_x = of_nat (unat (kt_x t)), kt_y = of_nat (unat (kt_y t)),
               kt_z = of_nat (unat (kt_z t))\<rparr>"
      by simp
    with lt show "t \<in> set (grid_coordinates d)"
      unfolding grid_coordinates_elem by blast
  qed
qed

lemma sorted_grid_row: "sorted_wrt zyx_less (grid_row d z y)"
proof -
  have "sorted_wrt (<) [0..<unat (td_x d)]" by simp
  then have "sorted_wrt (\<lambda>i j. (of_nat i :: 64 word) < of_nat j) [0..<unat (td_x d)]"
    by (rule sorted_wrt_mono_rel [rotated]) (auto dest: of_nat_less_word)
  then show ?thesis
    by (simp add: grid_row_def sorted_wrt_map zyx_less_def)
qed

lemma sorted_grid_plane: "sorted_wrt zyx_less (grid_plane d z)"
  unfolding grid_plane_def
proof (rule sorted_wrt_concat_map_upt)
  fix i
  show "sorted_wrt zyx_less (grid_row d z i)" by (rule sorted_grid_row)
next
  fix i j u v
  assume "i < j" "j < unat (td_y d)" "u \<in> set (grid_row d z i)" "v \<in> set (grid_row d z j)"
  then show "zyx_less u v"
    by (auto simp: grid_row_elem zyx_less_def dest: of_nat_less_word)
qed

lemma sorted_grid_coordinates: "sorted_wrt zyx_less (grid_coordinates d)"
  unfolding grid_coordinates_def
proof (rule sorted_wrt_concat_map_upt)
  fix i
  show "sorted_wrt zyx_less (grid_plane d i)" by (rule sorted_grid_plane)
next
  fix i j u v
  assume "i < j" "j < unat (td_z d)" "u \<in> set (grid_plane d i)" "v \<in> set (grid_plane d j)"
  then show "zyx_less u v"
    by (auto simp: grid_plane_elem zyx_less_def dest: of_nat_less_word)
qed


lemma zyx_less_irrefl: "\<not> zyx_less t t"
  by (simp add: zyx_less_def)

lemma sorted_zyx_distinct: "sorted_wrt zyx_less ts \<Longrightarrow> distinct ts"
  by (induction ts) (auto simp: zyx_less_irrefl)

lemma length_concat_map_upt:
  "(\<And>i. i < n \<Longrightarrow> length (f i) = k) \<Longrightarrow> length (concat (map f [0..<n])) = n * k"
  by (induction n) simp_all

lemma length_grid_coordinates:
  "length (grid_coordinates d) = unat (td_z d) * (unat (td_y d) * unat (td_x d))"
proof -
  have row: "\<And>z y. length (grid_row d z y) = unat (td_x d)"
    by (simp add: grid_row_def)
  have plane: "\<And>z. length (grid_plane d z) = unat (td_y d) * unat (td_x d)"
    unfolding grid_plane_def by (rule length_concat_map_upt) (rule row)
  show ?thesis
    unfolding grid_coordinates_def by (rule length_concat_map_upt) (rule plane)
qed

section \<open>Claims about the kernel launch\<close>

text \<open>
  C2, as amended. For the thread grid \<open>(x = 3, y = 4, z = 5)\<close>, \<open>Delinearize\<close> maps the
  linear task index 37 to the coordinate \<open>(x = 1, y = 0, z = 3)\<close>: \<open>z = 37 / 12 = 3\<close>, the
  remainder is 1, \<open>y = 1 / 3 = 0\<close> and \<open>x = 1\<close>. The claim's \<open>y = 3\<close> is not what the
  formula gives.
\<close>

theorem Delinearize_37_in_3_4_5:
  "Delinearize (KernelParallelTask_init kern \<lparr>td_x = 3, td_y = 4, td_z = 5\<rparr> args) 37
     = Inr \<lparr>kt_x = 1, kt_y = 0, kt_z = 3\<rparr>"
  by (simp add: Delinearize_def KernelParallelTask_init_def)

theorem Delinearize_37_in_3_4_5_witness:
  "Delinearize (KernelParallelTask_init recording_kernel \<lparr>td_x = 3, td_y = 4, td_z = 5\<rparr> []) 37
     = Inr \<lparr>kt_x = 1, kt_y = 0, kt_z = 3\<rparr>"
  by (rule Delinearize_37_in_3_4_5)

theorem Delinearize_37_in_3_4_5_counterexample:
  "Delinearize (KernelParallelTask_init recording_kernel \<lparr>td_x = 3, td_y = 4, td_z = 5\<rparr> []) 37
     \<noteq> Inr \<lparr>kt_x = 1, kt_y = 3, kt_z = 3\<rparr>"
  by (simp add: Delinearize_def KernelParallelTask_init_def)

text \<open>
  C3, as amended. In the synchronous launch, when a call of the native kernel returns a
  non-null error, the launch returns the internal error with the fixed message
  \<open>Failed to call host kernel\<close>, and that message does not include the coordinate of the
  failing call.
\<close>

theorem sync_failure_message:
  "first_failure kern (map (frame_at d args) (grid_coordinates d)) s = Some f \<Longrightarrow>
     fst (Launch kern d args s) = InternalError ''Failed to call host kernel''
     \<and> \<not> failure_names_coordinate (fst (Launch kern d args s)) (cf_thread f)"
proof -
  assume "first_failure kern (map (frame_at d args) (grid_coordinates d)) s = Some f"
  then have "\<exists>s'. invoke_seq kern (map (frame_at d args) (grid_coordinates d)) s
       = (Some (InternalError ''Failed to call host kernel''), s')"
    by (rule first_failure_Some)
  then obtain s' where
    "invoke_seq kern (map (frame_at d args) (grid_coordinates d)) s
       = (Some (InternalError ''Failed to call host kernel''), s')" ..
  then have "fst (Launch kern d args s) = InternalError ''Failed to call host kernel''"
    by (simp add: Launch_invoke_all invoke_all_def)
  then show ?thesis
    by (simp add: failure_names_coordinate_def message_without_coordinate)
qed

lemma grid_2_1_1:
  "grid_coordinates \<lparr>td_x = 2, td_y = 1, td_z = 1\<rparr>
     = [\<lparr>kt_x = 0, kt_y = 0, kt_z = 0\<rparr>, \<lparr>kt_x = 1, kt_y = 0, kt_z = 0\<rparr>]"
  by (simp add: grid_coordinates_def grid_plane_def grid_row_def upt_rec)

lemma first_failure_2_1_1:
  "first_failure (failing_kernel_at \<lparr>kt_x = 1, kt_y = 0, kt_z = 0\<rparr>)
     (map (frame_at \<lparr>td_x = 2, td_y = 1, td_z = 1\<rparr> [])
        (grid_coordinates \<lparr>td_x = 2, td_y = 1, td_z = 1\<rparr>)) []
     = Some (frame_at \<lparr>td_x = 2, td_y = 1, td_z = 1\<rparr> [] \<lparr>kt_x = 1, kt_y = 0, kt_z = 0\<rparr>)"
  by (simp add: grid_2_1_1 failing_kernel_at_def frame_at_def)

lemma Launch_2_1_1:
  "Launch (failing_kernel_at \<lparr>kt_x = 1, kt_y = 0, kt_z = 0\<rparr>)
     \<lparr>td_x = 2, td_y = 1, td_z = 1\<rparr> [] []
     = (InternalError ''Failed to call host kernel'',
        [\<lparr>kt_x = 0, kt_y = 0, kt_z = 0\<rparr>, \<lparr>kt_x = 1, kt_y = 0, kt_z = 0\<rparr>])"
  by (simp add: Launch_invoke_all invoke_all_def grid_2_1_1 failing_kernel_at_def frame_at_def)

theorem sync_failure_message_witness:
  "first_failure (failing_kernel_at \<lparr>kt_x = 1, kt_y = 0, kt_z = 0\<rparr>)
     (map (frame_at \<lparr>td_x = 2, td_y = 1, td_z = 1\<rparr> [])
        (grid_coordinates \<lparr>td_x = 2, td_y = 1, td_z = 1\<rparr>)) []
     = Some (frame_at \<lparr>td_x = 2, td_y = 1, td_z = 1\<rparr> [] \<lparr>kt_x = 1, kt_y = 0, kt_z = 0\<rparr>)
   \<and> fst (Launch (failing_kernel_at \<lparr>kt_x = 1, kt_y = 0, kt_z = 0\<rparr>)
            \<lparr>td_x = 2, td_y = 1, td_z = 1\<rparr> [] [])
       = InternalError ''Failed to call host kernel''"
  using sync_failure_message [OF first_failure_2_1_1] first_failure_2_1_1 by blast

theorem sync_failure_message_counterexample:
  "first_failure (failing_kernel_at \<lparr>kt_x = 1, kt_y = 0, kt_z = 0\<rparr>)
     (map (frame_at \<lparr>td_x = 2, td_y = 1, td_z = 1\<rparr> [])
        (grid_coordinates \<lparr>td_x = 2, td_y = 1, td_z = 1\<rparr>)) []
     = Some (frame_at \<lparr>td_x = 2, td_y = 1, td_z = 1\<rparr> [] \<lparr>kt_x = 1, kt_y = 0, kt_z = 0\<rparr>)
   \<and> Launch (failing_kernel_at \<lparr>kt_x = 1, kt_y = 0, kt_z = 0\<rparr>)
        \<lparr>td_x = 2, td_y = 1, td_z = 1\<rparr> [] []
       = (InternalError ''Failed to call host kernel'',
          [\<lparr>kt_x = 0, kt_y = 0, kt_z = 0\<rparr>, \<lparr>kt_x = 1, kt_y = 0, kt_z = 0\<rparr>])
   \<and> \<not> failure_names_coordinate
         (fst (Launch (failing_kernel_at \<lparr>kt_x = 1, kt_y = 0, kt_z = 0\<rparr>)
                 \<lparr>td_x = 2, td_y = 1, td_z = 1\<rparr> [] []))
         \<lparr>kt_x = 1, kt_y = 0, kt_z = 0\<rparr>"
  by (simp add: first_failure_2_1_1 Launch_2_1_1 failure_names_coordinate_def
      message_without_coordinate)


text \<open>
  C4. The synchronous launch calls the native kernel on the frames of the grid's
  coordinates, one after the other: each frame holds the grid dimensions, its coordinate
  and the argument list; the coordinates are those of the grid, each once, in the order
  \<open>z\<close> outermost, then \<open>y\<close>, \<open>x\<close> fastest; the first call that returns a non-null error
  ends the launch with a failure, no further call being made, and the launch returns
  success when every call of the grid has returned null.
\<close>

theorem Launch_runs_grid_in_order:
  "Launch kern d args s = invoke_all kern (map (frame_at d args) (grid_coordinates d)) s
   \<and> set (grid_coordinates d) = {t. in_grid d t}
   \<and> distinct (grid_coordinates d)
   \<and> length (grid_coordinates d) = unat (td_z d) * (unat (td_y d) * unat (td_x d))
   \<and> sorted_wrt zyx_less (grid_coordinates d)
   \<and> cf_thread_dims (frame_at d args t) = \<lparr>ktd_x = td_x d, ktd_y = td_y d, ktd_z = td_z d\<rparr>
   \<and> cf_thread (frame_at d args t) = t
   \<and> cf_args (frame_at d args t) = args"
  by (simp add: Launch_invoke_all set_grid_coordinates sorted_grid_coordinates frame_at_def
      sorted_zyx_distinct length_grid_coordinates)

lemma grid_2_2_2:
  "grid_coordinates \<lparr>td_x = 2, td_y = 2, td_z = 2\<rparr>
     = [\<lparr>kt_x = 0, kt_y = 0, kt_z = 0\<rparr>, \<lparr>kt_x = 1, kt_y = 0, kt_z = 0\<rparr>,
        \<lparr>kt_x = 0, kt_y = 1, kt_z = 0\<rparr>, \<lparr>kt_x = 1, kt_y = 1, kt_z = 0\<rparr>,
        \<lparr>kt_x = 0, kt_y = 0, kt_z = 1\<rparr>, \<lparr>kt_x = 1, kt_y = 0, kt_z = 1\<rparr>,
        \<lparr>kt_x = 0, kt_y = 1, kt_z = 1\<rparr>, \<lparr>kt_x = 1, kt_y = 1, kt_z = 1\<rparr>]"
  by (simp add: grid_coordinates_def grid_plane_def grid_row_def upt_rec)

theorem Launch_runs_grid_in_order_witness:
  "Launch recording_kernel \<lparr>td_x = 2, td_y = 2, td_z = 2\<rparr> [] []
     = (OkStatus,
        [\<lparr>kt_x = 0, kt_y = 0, kt_z = 0\<rparr>, \<lparr>kt_x = 1, kt_y = 0, kt_z = 0\<rparr>,
         \<lparr>kt_x = 0, kt_y = 1, kt_z = 0\<rparr>, \<lparr>kt_x = 1, kt_y = 1, kt_z = 0\<rparr>,
         \<lparr>kt_x = 0, kt_y = 0, kt_z = 1\<rparr>, \<lparr>kt_x = 1, kt_y = 0, kt_z = 1\<rparr>,
         \<lparr>kt_x = 0, kt_y = 1, kt_z = 1\<rparr>, \<lparr>kt_x = 1, kt_y = 1, kt_z = 1\<rparr>])
   \<and> Launch (failing_kernel_at \<lparr>kt_x = 0, kt_y = 1, kt_z = 0\<rparr>)
        \<lparr>td_x = 2, td_y = 2, td_z = 2\<rparr> [] []
       = (InternalError ''Failed to call host kernel'',
          [\<lparr>kt_x = 0, kt_y = 0, kt_z = 0\<rparr>, \<lparr>kt_x = 1, kt_y = 0, kt_z = 0\<rparr>,
           \<lparr>kt_x = 0, kt_y = 1, kt_z = 0\<rparr>])"
  using Launch_runs_grid_in_order [of recording_kernel "\<lparr>td_x = 2, td_y = 2, td_z = 2\<rparr>" "[]" "[]"]
    Launch_runs_grid_in_order [of "failing_kernel_at \<lparr>kt_x = 0, kt_y = 1, kt_z = 0\<rparr>"
      "\<lparr>td_x = 2, td_y = 2, td_z = 2\<rparr>" "[]" "[]"]
  by (simp add: grid_2_2_2 invoke_all_def recording_kernel_def failing_kernel_at_def frame_at_def)

text \<open>
  C5. With a worker pool supplied and a task count \<open>x * y * z\<close> of 1, that is for the
  grid \<open>(1, 1, 1)\<close>, the launch makes its one kernel call, at the coordinate
  \<open>(0, 0, 0)\<close>, inline, and returns a completion signal that is already resolved, to
  success or to that call's failure; the pool's \<open>Parallelize\<close> is not called. The code
  tests the 64-bit product \<open>num_tasks\<close>: whenever that is 1, what is returned is the
  resolved outcome of the synchronous launch of the grid, run inline.
\<close>

theorem single_task_runs_inline:
  "(unat (td_x d) * unat (td_y d) * unat (td_z d) = 1 \<longrightarrow>
      Launch_async kern d args device s =
        (case kern (frame_at d args \<lparr>kt_x = 0, kt_y = 0, kt_z = 0\<rparr>) s of
           (None, s') \<Rightarrow> (Inr OkLaunchEvent, s')
         | (Some error, s') \<Rightarrow>
             (Inr (MakeErrorAsyncValueRef (InternalError ''Failed to call host kernel'')), s')))
   \<and> (td_x d * td_y d * td_z d = 1 \<longrightarrow>
      Launch_async kern d args device s =
        (case Launch kern d args s of
           (launched, s') \<Rightarrow>
             (Inr (if launched = OkStatus then OkLaunchEvent
                   else MakeErrorAsyncValueRef launched), s')))"
proof (intro conjI impI)
  assume "unat (td_x d) * unat (td_y d) * unat (td_z d) = 1"
  then have unit: "td_x d = 1 \<and> td_y d = 1 \<and> td_z d = 1"
    by (rule unit_grid)
  then have "td_x d * td_y d * td_z d = 1" by simp
  then show "Launch_async kern d args device s =
        (case kern (frame_at d args \<lparr>kt_x = 0, kt_y = 0, kt_z = 0\<rparr>) s of
           (None, s') \<Rightarrow> (Inr OkLaunchEvent, s')
         | (Some error, s') \<Rightarrow>
             (Inr (MakeErrorAsyncValueRef (InternalError ''Failed to call host kernel'')), s'))"
    by (simp add: Launch_async_one Launch_unit_grid [OF unit] split: prod.splits option.splits)
next
  assume "td_x d * td_y d * td_z d = 1"
  then show "Launch_async kern d args device s =
        (case Launch kern d args s of
           (launched, s') \<Rightarrow>
             (Inr (if launched = OkStatus then OkLaunchEvent
                   else MakeErrorAsyncValueRef launched), s'))"
    by (rule Launch_async_one)
qed

theorem single_task_runs_inline_witness:
  "unat (td_x \<lparr>td_x = 1, td_y = 1, td_z = 1\<rparr>) * unat (td_y \<lparr>td_x = 1, td_y = 1, td_z = 1\<rparr>)
     * unat (td_z \<lparr>td_x = 1, td_y = 1, td_z = 1\<rparr>) = 1
   \<and> Launch_async recording_kernel \<lparr>td_x = 1, td_y = 1, td_z = 1\<rparr> []
         \<lparr>numThreadsInPool = 8\<rparr> []
       = (Inr OkLaunchEvent, [\<lparr>kt_x = 0, kt_y = 0, kt_z = 0\<rparr>])
   \<and> Launch_async (failing_kernel_at \<lparr>kt_x = 0, kt_y = 0, kt_z = 0\<rparr>)
         \<lparr>td_x = 1, td_y = 1, td_z = 1\<rparr> [] \<lparr>numThreadsInPool = 8\<rparr> []
       = (Inr (MakeErrorAsyncValueRef (InternalError ''Failed to call host kernel'')),
          [\<lparr>kt_x = 0, kt_y = 0, kt_z = 0\<rparr>])"
  using single_task_runs_inline [of "\<lparr>td_x = 1, td_y = 1, td_z = 1\<rparr>" recording_kernel "[]"
      "\<lparr>numThreadsInPool = 8\<rparr>" "[]"]
    single_task_runs_inline [of "\<lparr>td_x = 1, td_y = 1, td_z = 1\<rparr>"
      "failing_kernel_at \<lparr>kt_x = 0, kt_y = 0, kt_z = 0\<rparr>" "[]" "\<lparr>numThreadsInPool = 8\<rparr>" "[]"]
  by (simp add: recording_kernel_def failing_kernel_at_def frame_at_def)

text \<open>
  C6. With a worker pool supplied, a task count \<open>x * y * z\<close> of 0 fails the check
  \<open>CHECK_GT(num_tasks, 0)\<close>: the launch does not return, it makes no kernel call and does
  not reach the pool.
\<close>

theorem zero_tasks_is_fatal:
  "td_x d * td_y d * td_z d = 0 \<Longrightarrow>
     Launch_async kern d args device s
       = (Inl (CheckFailed ''Number of tasks must be positive''), s)"
  by (rule Launch_async_zero)

theorem zero_tasks_is_fatal_witness:
  "td_x \<lparr>td_x = 4, td_y = 0, td_z = 2\<rparr> * td_y \<lparr>td_x = 4, td_y = 0, td_z = 2\<rparr>
     * td_z \<lparr>td_x = 4, td_y = 0, td_z = 2\<rparr> = 0
   \<and> Launch_async recording_kernel \<lparr>td_x = 4, td_y = 0, td_z = 2\<rparr> []
         \<lparr>numThreadsInPool = 8\<rparr> []
       = (Inl (CheckFailed ''Number of tasks must be positive''), [])"
proof -
  have zero: "td_x \<lparr>td_x = 4, td_y = 0, td_z = 2\<rparr> * td_y \<lparr>td_x = 4, td_y = 0, td_z = 2\<rparr>
                * td_z \<lparr>td_x = 4, td_y = 0, td_z = 2\<rparr> = 0"
    by simp
  show ?thesis
    using zero zero_tasks_is_fatal [OF zero, of recording_kernel "[]" "\<lparr>numThreadsInPool = 8\<rparr>" "[]"]
    by blast
qed

text \<open>
  C9. In the synchronous launch, a grid with a zero dimension is not an error: the
  launch makes no kernel call (the state is the one it started from, whatever the
  kernel is) and returns success. The launch on a pool fails its check on the same grid.
\<close>

theorem zero_sized_grid_sync_succeeds:
  "td_x d = 0 \<or> td_y d = 0 \<or> td_z d = 0 \<Longrightarrow>
     Launch kern d args s = (OkStatus, s)
     \<and> grid_coordinates d = []
     \<and> Launch_async kern d args device s
         = (Inl (CheckFailed ''Number of tasks must be positive''), s)"
  by (simp add: Launch_empty_grid grid_coordinates_empty Launch_async_zero product_zero)

theorem zero_sized_grid_sync_succeeds_witness:
  "(td_x \<lparr>td_x = 0, td_y = 5, td_z = 7\<rparr> = 0 \<or> td_y \<lparr>td_x = 0, td_y = 5, td_z = 7\<rparr> = 0
      \<or> td_z \<lparr>td_x = 0, td_y = 5, td_z = 7\<rparr> = 0)
   \<and> Launch recording_kernel \<lparr>td_x = 0, td_y = 5, td_z = 7\<rparr> [] [] = (OkStatus, [])
   \<and> Launch_async recording_kernel \<lparr>td_x = 0, td_y = 5, td_z = 7\<rparr> []
         \<lparr>numThreadsInPool = 8\<rparr> []
       = (Inl (CheckFailed ''Number of tasks must be positive''), [])"
proof -
  have zero: "td_x \<lparr>td_x = 0, td_y = 5, td_z = 7\<rparr> = 0 \<or> td_y \<lparr>td_x = 0, td_y = 5, td_z = 7\<rparr> = 0
      \<or> td_z \<lparr>td_x = 0, td_y = 5, td_z = 7\<rparr> = 0"
    by simp
  show ?thesis
    using zero zero_sized_grid_sync_succeeds [OF zero, of recording_kernel "[]" "[]"
        "\<lparr>numThreadsInPool = 8\<rparr>"]
    by blast
qed

section \<open>Further properties of the pool path\<close>

subsection \<open>The task's failure names its coordinate\<close>

lemma contains_self_prefix: "contains ndl (ndl @ rest)"
proof (cases "ndl @ rest")
  case Nil
  then show ?thesis by simp
next
  case (Cons c cs)
  have "take (length ndl) (ndl @ rest) = ndl" by simp
  with Cons show ?thesis by simp
qed

lemma contains_mid: "contains ndl (pre @ ndl @ rest)"
proof (induction pre)
  case Nil
  show ?case using contains_self_prefix [of ndl rest] by simp
next
  case (Cons c cs)
  then show ?case by simp
qed

lemma parallel_message_includes_coordinate:
  "includes_coordinate
     (''Failed to call host kernel: x='' @ decimal (unat (kt_x t)) @ '', y=''
        @ decimal (unat (kt_y t)) @ '', z='' @ decimal (unat (kt_z t))) t"
proof -
  let ?dx = "decimal (unat (kt_x t))" and ?dy = "decimal (unat (kt_y t))"
    and ?dz = "decimal (unat (kt_z t))"
  let ?msg = "''Failed to call host kernel: x='' @ ?dx @ '', y='' @ ?dy @ '', z='' @ ?dz"
  have "contains ?dx (''Failed to call host kernel: x='' @ ?dx @ ('', y='' @ ?dy @ '', z='' @ ?dz))"
    by (rule contains_mid)
  moreover have "contains ?dy ((''Failed to call host kernel: x='' @ ?dx @ '', y='') @ ?dy
                    @ ('', z='' @ ?dz))"
    by (rule contains_mid)
  moreover have "contains ?dz ((''Failed to call host kernel: x='' @ ?dx @ '', y='' @ ?dy @ '', z='')
                    @ ?dz @ [])"
    by (rule contains_mid)
  ultimately show ?thesis
    by (simp only: includes_coordinate_def append_assoc append_Nil2 simp_thms)
qed

text \<open>
  When the call of a parallel task returns a failure, the task index has a coordinate
  and the failure's message includes it: the message with the coordinate is built here,
  by \<open>KernelParallelTask::operator()\<close>.
\<close>

theorem task_failure_names_coordinate:
  "KernelParallelTask_call dcheck_is_on task task_index s = (Inr (InternalError msg), s') \<Longrightarrow>
     \<exists>t. Delinearize task task_index = Inr t
         \<and> msg = ''Failed to call host kernel: x='' @ decimal (unat (kt_x t)) @ '', y=''
                   @ decimal (unat (kt_y t)) @ '', z='' @ decimal (unat (kt_z t))
         \<and> includes_coordinate msg t"
  by (auto simp: KernelParallelTask_call_def Let_def parallel_message_includes_coordinate
      simp del: append.simps split: if_splits sum.splits prod.splits option.splits)

theorem task_failure_names_coordinate_witness:
  "KernelParallelTask_call True
     (KernelParallelTask_init (failing_kernel_at \<lparr>kt_x = 1, kt_y = 0, kt_z = 3\<rparr>)
        \<lparr>td_x = 3, td_y = 4, td_z = 5\<rparr> []) 37 []
     = (Inr (InternalError ''Failed to call host kernel: x=1, y=0, z=3''),
        [\<lparr>kt_x = 1, kt_y = 0, kt_z = 3\<rparr>])
   \<and> (\<exists>t. Delinearize
              (KernelParallelTask_init (failing_kernel_at \<lparr>kt_x = 1, kt_y = 0, kt_z = 3\<rparr>)
                 \<lparr>td_x = 3, td_y = 4, td_z = 5\<rparr> []) 37 = Inr t
          \<and> includes_coordinate ''Failed to call host kernel: x=1, y=0, z=3'' t)"
proof -
  have run: "KernelParallelTask_call True
     (KernelParallelTask_init (failing_kernel_at \<lparr>kt_x = 1, kt_y = 0, kt_z = 3\<rparr>)
        \<lparr>td_x = 3, td_y = 4, td_z = 5\<rparr> []) 37 []
     = (Inr (InternalError ''Failed to call host kernel: x=1, y=0, z=3''),
        [\<lparr>kt_x = 1, kt_y = 0, kt_z = 3\<rparr>])"
    by (simp add: KernelParallelTask_call_def KernelParallelTask_init_def Delinearize_def
        failing_kernel_at_def decimal.simps digits_def)
  show ?thesis
    using run task_failure_names_coordinate [OF run] by blast
qed

subsection \<open>Delinearize inverts the linear index\<close>

lemma Delinearize_unat:
  fixes X Y Z i :: nat
  assumes "i < X * Y * Z"
  shows "i div (Y * X) < Z" and "(i mod (Y * X)) div X < Y" and "(i mod (Y * X)) mod X < X"
    and "(i div (Y * X)) * (Y * X) + ((i mod (Y * X)) div X) * X + (i mod (Y * X)) mod X = i"
proof -
  from assms have pos: "0 < X" "0 < Y" "0 < Z"
    by (cases "X = 0"; cases "Y = 0"; cases "Z = 0"; simp)+
  from assms have "i < Z * (Y * X)" by (simp add: mult.commute mult.left_commute)
  then show "i div (Y * X) < Z"
    using pos by (simp add: less_mult_imp_div_less)
  have "i mod (Y * X) < Y * X" using pos by simp
  then show "(i mod (Y * X)) div X < Y"
    using pos by (simp add: less_mult_imp_div_less)
  show "(i mod (Y * X)) mod X < X" using pos by simp
  have "(i mod (Y * X)) div X * X + (i mod (Y * X)) mod X = i mod (Y * X)"
    by (rule div_mult_mod_eq)
  moreover have "i div (Y * X) * (Y * X) + i mod (Y * X) = i"
    by (rule div_mult_mod_eq)
  ultimately show
    "(i div (Y * X)) * (Y * X) + ((i mod (Y * X)) div X) * X + (i mod (Y * X)) mod X = i"
    by linarith
qed

text \<open>
  For a grid whose task count fits 64 bits and a task index below it, \<open>Delinearize\<close>
  divides by non-zero strides and returns a coordinate of the grid whose linear index,
  \<open>z * (Y * X) + y * X + x\<close>, is the task index.
\<close>

theorem Delinearize_inverts_linear_index:
  assumes no_wrap: "unat (td_x d) * unat (td_y d) * unat (td_z d) < 2 ^ 64"
    and in_range: "task_index < td_x d * td_y d * td_z d"
  shows "\<exists>t. Delinearize (KernelParallelTask_init kern d args) task_index = Inr t
           \<and> in_grid d t
           \<and> unat (kt_z t) * (unat (td_y d) * unat (td_x d)) + unat (kt_y t) * unat (td_x d)
               + unat (kt_x t) = unat task_index"
proof -
  let ?X = "unat (td_x d)" and ?Y = "unat (td_y d)" and ?Z = "unat (td_z d)"
  let ?i = "unat task_index"
  have prod: "unat (td_x d * td_y d * td_z d) = ?X * ?Y * ?Z"
    using no_wrap by (simp add: unat_word_ariths mod_simps)
  with in_range have i: "?i < ?X * ?Y * ?Z"
    by (simp add: word_less_nat_alt)
  then have pos: "0 < ?X" "0 < ?Y" "0 < ?Z"
    by (cases "?X = 0"; cases "?Y = 0"; cases "?Z = 0"; simp)+
  have "?Y * ?X \<le> ?X * ?Y * ?Z" using pos by simp
  with no_wrap have "?Y * ?X < 2 ^ 64" by (rule order.strict_trans1 [rotated])
  then have stride: "unat (td_y d * td_x d) = ?Y * ?X"
    by (simp add: unat_word_ariths)
  have sz: "td_y d * td_x d \<noteq> 0"
    using stride pos by (simp add: word_unat_eq_iff)
  have sy: "td_x d \<noteq> 0"
    using pos by (auto simp: word_unat_eq_iff)
  let ?z = "task_index div (td_y d * td_x d)"
  let ?r = "task_index mod (td_y d * td_x d)"
  let ?t = "\<lparr>kt_x = ?r mod td_x d, kt_y = ?r div td_x d, kt_z = ?z\<rparr>"
  have D: "Delinearize (KernelParallelTask_init kern d args) task_index = Inr ?t"
    using sz sy by (simp add: Delinearize_def KernelParallelTask_init_def Let_def)
  have uz: "unat ?z = ?i div (?Y * ?X)" by (simp add: unat_div stride)
  have ur: "unat ?r = ?i mod (?Y * ?X)" by (simp add: unat_mod stride)
  have uy: "unat (?r div td_x d) = (?i mod (?Y * ?X)) div ?X" by (simp add: unat_div unat_mod stride)
  have ux: "unat (?r mod td_x d) = (?i mod (?Y * ?X)) mod ?X" by (simp add: unat_mod stride)
  note facts = Delinearize_unat [OF i]
  have "in_grid d ?t"
    using facts(1-3) by (simp add: in_grid_def word_less_nat_alt uz uy ux)
  moreover have "unat (kt_z ?t) * (?Y * ?X) + unat (kt_y ?t) * ?X + unat (kt_x ?t) = ?i"
    using facts(4) by (simp add: uz uy ux)
  ultimately show ?thesis using D by blast
qed

theorem Delinearize_inverts_linear_index_witness:
  "unat (td_x \<lparr>td_x = 3, td_y = 4, td_z = 5\<rparr>) * unat (td_y \<lparr>td_x = 3, td_y = 4, td_z = 5\<rparr>)
     * unat (td_z \<lparr>td_x = 3, td_y = 4, td_z = 5\<rparr>) < 2 ^ 64
   \<and> (59 :: 64 word) < td_x \<lparr>td_x = 3, td_y = 4, td_z = 5\<rparr> * td_y \<lparr>td_x = 3, td_y = 4, td_z = 5\<rparr>
        * td_z \<lparr>td_x = 3, td_y = 4, td_z = 5\<rparr>
   \<and> (\<exists>t. Delinearize (KernelParallelTask_init recording_kernel
                          \<lparr>td_x = 3, td_y = 4, td_z = 5\<rparr> []) 59 = Inr t
          \<and> in_grid \<lparr>td_x = 3, td_y = 4, td_z = 5\<rparr> t
          \<and> unat (kt_z t) * (4 * 3) + unat (kt_y t) * 3 + unat (kt_x t) = 59)"
proof -
  have pre1: "unat (td_x \<lparr>td_x = 3, td_y = 4, td_z = 5\<rparr>) * unat (td_y \<lparr>td_x = 3, td_y = 4, td_z = 5\<rparr>)
     * unat (td_z \<lparr>td_x = 3, td_y = 4, td_z = 5\<rparr>) < 2 ^ 64"
    by simp
  have pre2: "(59 :: 64 word) < td_x \<lparr>td_x = 3, td_y = 4, td_z = 5\<rparr>
        * td_y \<lparr>td_x = 3, td_y = 4, td_z = 5\<rparr> * td_z \<lparr>td_x = 3, td_y = 4, td_z = 5\<rparr>"
    by simp
  show ?thesis
    using pre1 pre2 Delinearize_inverts_linear_index [OF pre1 pre2, of recording_kernel "[]"]
    by simp
qed

subsection \<open>A product that wraps around to 1\<close>

text \<open>
  The grid \<open>(3, 0xAAAAAAAAAAAAAAAB, 1)\<close> has more than \<open>2^64\<close> tasks and its 64-bit
  product is 1: the launch on a pool runs the synchronous launch of this grid inline,
  which here ends at the second kernel call.
\<close>

lemma wrapped_grid_prefix:
  "grid_coordinates \<lparr>td_x = 3, td_y = 0xAAAAAAAAAAAAAAAB, td_z = 1\<rparr>
     = [\<lparr>kt_x = 0, kt_y = 0, kt_z = 0\<rparr>, \<lparr>kt_x = 1, kt_y = 0, kt_z = 0\<rparr>]
       @ (\<lparr>kt_x = 2, kt_y = 0, kt_z = 0\<rparr>
            # plane_from \<lparr>td_x = 3, td_y = 0xAAAAAAAAAAAAAAAB, td_z = 1\<rparr> 0 (0 + 1))
       @ grid_from \<lparr>td_x = 3, td_y = 0xAAAAAAAAAAAAAAAB, td_z = 1\<rparr> (0 + 1)"
proof -
  let ?d = "\<lparr>td_x = 3, td_y = 0xAAAAAAAAAAAAAAAB, td_z = 1\<rparr>"
  have g: "grid_from ?d 0 = plane_from ?d 0 0 @ grid_from ?d (0 + 1)"
    by (rule grid_from_step) simp
  have p: "plane_from ?d 0 0 = row_from ?d 0 0 0 @ plane_from ?d 0 (0 + 1)"
    by (rule plane_from_step) simp
  have r: "row_from ?d 0 0 0
             = [\<lparr>kt_x = 0, kt_y = 0, kt_z = 0\<rparr>, \<lparr>kt_x = 1, kt_y = 0, kt_z = 0\<rparr>,
                \<lparr>kt_x = 2, kt_y = 0, kt_z = 0\<rparr>]"
    by (simp add: row_from_def upt_rec)
  show ?thesis
    by (simp only: grid_from_0 [symmetric] g p r append.simps append_assoc)
qed

lemma wrapped_grid_Launch:
  "Launch (failing_kernel_at \<lparr>kt_x = 1, kt_y = 0, kt_z = 0\<rparr>)
     \<lparr>td_x = 3, td_y = 0xAAAAAAAAAAAAAAAB, td_z = 1\<rparr> [] []
     = (InternalError ''Failed to call host kernel'',
        [\<lparr>kt_x = 0, kt_y = 0, kt_z = 0\<rparr>, \<lparr>kt_x = 1, kt_y = 0, kt_z = 0\<rparr>])"
proof -
  let ?d = "\<lparr>td_x = 3, td_y = 0xAAAAAAAAAAAAAAAB, td_z = 1\<rparr>"
  let ?k = "failing_kernel_at \<lparr>kt_x = 1, kt_y = 0, kt_z = 0\<rparr>"
  have "invoke_seq ?k
          (map (frame_at ?d [])
             [\<lparr>kt_x = 0, kt_y = 0, kt_z = 0\<rparr>, \<lparr>kt_x = 1, kt_y = 0, kt_z = 0\<rparr>]) []
        = (Some (InternalError ''Failed to call host kernel''),
           [\<lparr>kt_x = 0, kt_y = 0, kt_z = 0\<rparr>, \<lparr>kt_x = 1, kt_y = 0, kt_z = 0\<rparr>])"
    by (simp add: failing_kernel_at_def frame_at_def)
  then show ?thesis
    by (simp only: Launch_invoke_all invoke_all_def wrapped_grid_prefix map_append
        invoke_seq_append prod.case option.case)
qed

lemma wrapped_product_launch:
  "td_x \<lparr>td_x = 3, td_y = 0xAAAAAAAAAAAAAAAB, td_z = 1\<rparr>
     * td_y \<lparr>td_x = 3, td_y = 0xAAAAAAAAAAAAAAAB, td_z = 1\<rparr>
     * td_z \<lparr>td_x = 3, td_y = 0xAAAAAAAAAAAAAAAB, td_z = 1\<rparr> = 1
   \<and> Launch_async (failing_kernel_at \<lparr>kt_x = 1, kt_y = 0, kt_z = 0\<rparr>)
         \<lparr>td_x = 3, td_y = 0xAAAAAAAAAAAAAAAB, td_z = 1\<rparr> [] \<lparr>numThreadsInPool = 8\<rparr> []
       = (Inr (MakeErrorAsyncValueRef (InternalError ''Failed to call host kernel'')),
          [\<lparr>kt_x = 0, kt_y = 0, kt_z = 0\<rparr>, \<lparr>kt_x = 1, kt_y = 0, kt_z = 0\<rparr>])"
proof -
  have one: "td_x \<lparr>td_x = 3, td_y = 0xAAAAAAAAAAAAAAAB, td_z = 1\<rparr>
     * td_y \<lparr>td_x = 3, td_y = 0xAAAAAAAAAAAAAAAB, td_z = 1\<rparr>
     * td_z \<lparr>td_x = 3, td_y = 0xAAAAAAAAAAAAAAAB, td_z = 1\<rparr> = (1 :: 64 word)"
    by simp
  show ?thesis
    using one by (simp only: Launch_async_one [OF one] wrapped_grid_Launch) simp
qed

subsection \<open>The number of workers\<close>

text \<open>
  When the task count is neither 0 nor 1, the launch hands the grid to the pool: it
  makes no kernel call of its own, and the number of workers it asks for is at most the
  number of tasks and at most 65535.
\<close>

theorem pool_launch_clamps_workers:
  "td_x d * td_y d * td_z d \<noteq> 0 \<and> td_x d * td_y d * td_z d \<noteq> 1 \<longrightarrow>
     (\<exists>num_workers.
        Launch_async kern d args device s =
          (Inr (Parallelize device num_workers (td_x d * td_y d * td_z d)
                  (KernelParallelTask_init kern d args)), s)
        \<and> num_workers = min (min (td_x d * td_y d * td_z d) (scast (numThreadsInPool device))) 65535
        \<and> num_workers \<le> td_x d * td_y d * td_z d \<and> num_workers \<le> 65535)"
  by (simp add: Launch_async_def Let_def word_gt_0 min_le_iff_disj)

theorem pool_launch_clamps_workers_witness:
  "Launch_async recording_kernel \<lparr>td_x = 10, td_y = 10, td_z = 1\<rparr> [] \<lparr>numThreadsInPool = 8\<rparr> []
     = (Inr (Parallelize \<lparr>numThreadsInPool = 8\<rparr> 8 100
              (KernelParallelTask_init recording_kernel \<lparr>td_x = 10, td_y = 10, td_z = 1\<rparr> [])), [])"
  using pool_launch_clamps_workers [where d = "\<lparr>td_x = 10, td_y = 10, td_z = 1\<rparr>"
      and device = "\<lparr>numThreadsInPool = 8\<rparr>" and kern = recording_kernel and args = "[]"
      and s = "[]"]
  by simp

end
